theory Spec2Isabelle
  imports Complex_Main "HOL-Library.Word" "HOL-Library.AList"
begin

section \<open>JavaScript numbers\<close>

text \<open>
  A JavaScript \<^verbatim>\<open>number\<close> is an IEEE-754 binary64 value: one sign bit, eleven exponent
  bits and fifty-two fraction bits. Every inhabitant of \<open>jsnum\<close> is such a value. An
  exponent field of all ones is an infinity (fraction zero) or a NaN (fraction not zero);
  an exponent field of zero is a zero or a subnormal number.
\<close>

datatype jsnum = Double (sign_bit: bool) (expo: "11 word") (frac: "52 word")

definition isNaN :: "jsnum \<Rightarrow> bool" where
  "isNaN x = (expo x = 2047 \<and> frac x \<noteq> 0)"

definition isInf :: "jsnum \<Rightarrow> bool" where
  "isInf x = (expo x = 2047 \<and> frac x = 0)"

definition isZero :: "jsnum \<Rightarrow> bool" where
  "isZero x = (expo x = 0 \<and> frac x = 0)"

definition isFinite :: "jsnum \<Rightarrow> bool" where
  "isFinite x = (expo x \<noteq> 2047)"

definition NaN :: jsnum where
  "NaN = Double False 2047 (2 ^ 51)"

definition Infinity :: "bool \<Rightarrow> jsnum" where
  "Infinity s = Double s 2047 0"

definition zero :: "bool \<Rightarrow> jsnum" where
  "zero s = Double s 0 0"

definition pow2 :: "int \<Rightarrow> rat" where
  "pow2 k = (if 0 \<le> k then 2 ^ nat k else 1 / 2 ^ nat (- k))"

definition pow10 :: "int \<Rightarrow> rat" where
  "pow10 k = (if 0 \<le> k then 10 ^ nat k else 1 / 10 ^ nat (- k))"

text \<open>
  The rational a value denotes. An infinity is read as \<open>\<plusminus> 2 ^ 1024\<close>, the first
  magnitude beyond the finite range, so that \<open>valof\<close> orders all values that are not NaN.
\<close>

definition valof :: "jsnum \<Rightarrow> rat" where
  "valof x =
     (let m = (if expo x = 0 then of_int (uint (frac x)) else 2 ^ 52 + of_int (uint (frac x)));
          e = (if expo x = 0 then 1 else uint (expo x)) - 1075
      in (if sign_bit x then - 1 else 1) * m * pow2 e)"

function bitlen :: "int \<Rightarrow> int" where
  "bitlen n = (if n \<le> 0 then 0 else 1 + bitlen (n div 2))"
  by pat_completeness auto
termination
  by (relation "measure nat") auto

declare bitlen.simps [simp del]

text \<open>\<open>ilog2 a\<close> is the integer \<open>e\<close> with \<open>2 ^ e \<le> a < 2 ^ (e + 1)\<close>, for positive \<open>a\<close>.\<close>

definition ilog2 :: "rat \<Rightarrow> int" where
  "ilog2 a =
     (let (n, d) = quotient_of a;
          k = bitlen n - bitlen d
      in if pow2 k \<le> a then k else k - 1)"

definition round_half_even :: "rat \<Rightarrow> int" where
  "round_half_even q =
     (let f = \<lfloor>q\<rfloor>; r = q - of_int f
      in if r < 1 / 2 then f else if 1 / 2 < r then f + 1
         else if even f then f else f + 1)"

text \<open>
  Rounding of a non-negative rational to the nearest binary64 value, ties to even, with
  the sign given separately (the sign of a zero result is decided by the operation).
\<close>

definition round_to_double :: "bool \<Rightarrow> rat \<Rightarrow> jsnum" where
  "round_to_double s a =
     (if a = 0 then zero s
      else let e0 = max (ilog2 a) (- 1022);
               m0 = round_half_even (a / pow2 (e0 - 52));
               e = (if m0 = 2 ^ 53 then e0 + 1 else e0);
               m = (if m0 = 2 ^ 53 then 2 ^ 52 else m0)
           in if 1023 < e then Infinity s
              else if m < 2 ^ 52 then Double s 0 (of_int m)
              else Double s (of_int (e + 1023)) (of_int (m - 2 ^ 52)))"

definition num_of_rat :: "rat \<Rightarrow> jsnum" where
  "num_of_rat q = round_to_double (q < 0) \<bar>q\<bar>"

text \<open>The numeric literals of the source.\<close>

definition num_0 :: jsnum where "num_0 = Double False 0 0"
definition num_1 :: jsnum where "num_1 = Double False 1023 0"
definition num_01 :: jsnum where "num_01 = Double False 1019 0x999999999999A"
definition num_35 :: jsnum where "num_35 = Double False 1028 0x1800000000000"
definition num_100 :: jsnum where "num_100 = Double False 1029 0x9000000000000"
definition num_600 :: jsnum where "num_600 = Double False 1032 0x2C00000000000"

subsection \<open>Arithmetic and comparison\<close>

definition fneg :: "jsnum \<Rightarrow> jsnum" where
  "fneg x = Double (\<not> sign_bit x) (expo x) (frac x)"

definition fadd :: "jsnum \<Rightarrow> jsnum \<Rightarrow> jsnum" where
  "fadd a b =
     (if isNaN a \<or> isNaN b then NaN
      else if isInf a then (if isInf b \<and> sign_bit a \<noteq> sign_bit b then NaN else a)
      else if isInf b then b
      else let r = valof a + valof b
           in if r = 0 then zero (sign_bit a \<and> sign_bit b)
              else round_to_double (r < 0) \<bar>r\<bar>)"

definition fsub :: "jsnum \<Rightarrow> jsnum \<Rightarrow> jsnum" where
  "fsub a b = fadd a (fneg b)"

definition fmul :: "jsnum \<Rightarrow> jsnum \<Rightarrow> jsnum" where
  "fmul a b =
     (if isNaN a \<or> isNaN b then NaN
      else if (isInf a \<and> isZero b) \<or> (isZero a \<and> isInf b) then NaN
      else if isInf a \<or> isInf b then Infinity (sign_bit a \<noteq> sign_bit b)
      else round_to_double (sign_bit a \<noteq> sign_bit b) (\<bar>valof a\<bar> * \<bar>valof b\<bar>))"

definition fdiv :: "jsnum \<Rightarrow> jsnum \<Rightarrow> jsnum" where
  "fdiv a b =
     (if isNaN a \<or> isNaN b then NaN
      else if isInf a then (if isInf b then NaN else Infinity (sign_bit a \<noteq> sign_bit b))
      else if isInf b then zero (sign_bit a \<noteq> sign_bit b)
      else if isZero b then (if isZero a then NaN else Infinity (sign_bit a \<noteq> sign_bit b))
      else round_to_double (sign_bit a \<noteq> sign_bit b) (\<bar>valof a\<bar> / \<bar>valof b\<bar>))"

text \<open>\<^verbatim>\<open>a < b\<close> and \<^verbatim>\<open>a > b\<close>: false as soon as one side is NaN.\<close>

definition flt :: "jsnum \<Rightarrow> jsnum \<Rightarrow> bool" where
  "flt a b = (\<not> isNaN a \<and> \<not> isNaN b \<and> valof a < valof b)"

definition fgt :: "jsnum \<Rightarrow> jsnum \<Rightarrow> bool" where
  "fgt a b = flt b a"

text \<open>
  \<^verbatim>\<open>Math.min\<close> and \<^verbatim>\<open>Math.max\<close> of two numbers: NaN if either is NaN; the negative zero is
  smaller than the positive one.
\<close>

definition Math_min :: "jsnum \<Rightarrow> jsnum \<Rightarrow> jsnum" where
  "Math_min a b =
     (if isNaN a \<or> isNaN b then NaN
      else if valof a < valof b then a
      else if valof b < valof a then b
      else if sign_bit a then a else b)"

definition Math_max :: "jsnum \<Rightarrow> jsnum \<Rightarrow> jsnum" where
  "Math_max a b =
     (if isNaN a \<or> isNaN b then NaN
      else if valof b < valof a then a
      else if valof a < valof b then b
      else if sign_bit a then b else a)"

text \<open>
  \<^verbatim>\<open>Math.round\<close>: the nearest integer, halves towards plus infinity; a result of zero keeps
  the sign of the argument.
\<close>

definition Math_round :: "jsnum \<Rightarrow> jsnum" where
  "Math_round x =
     (if isNaN x then NaN
      else if isInf x then x
      else let r = \<lfloor>valof x + 1 / 2\<rfloor>
           in if r = 0 then zero (sign_bit x) else round_to_double (r < 0) (of_int \<bar>r\<bar>))"

text \<open>Strict equality \<^verbatim>\<open>===\<close> on numbers, and the key equality of \<^verbatim>\<open>Map\<close> (SameValueZero).\<close>

definition num_strict_eq :: "jsnum \<Rightarrow> jsnum \<Rightarrow> bool" where
  "num_strict_eq a b = (\<not> isNaN a \<and> \<not> isNaN b \<and> (a = b \<or> (isZero a \<and> isZero b)))"

definition sameValueZero :: "jsnum \<Rightarrow> jsnum \<Rightarrow> bool" where
  "sameValueZero a b = ((isNaN a \<and> isNaN b) \<or> a = b \<or> (isZero a \<and> isZero b))"

section \<open>JavaScript strings\<close>

text \<open>
  Strings are lists of 8-bit characters: the model covers the strings whose code units lie
  in the Latin-1 range. \<^verbatim>\<open>toLowerCase\<close> and \<^verbatim>\<open>trim\<close> are the built-in operations restricted
  to that range.
\<close>

definition char_code :: "char \<Rightarrow> int" where
  "char_code c = of_char c"

definition toLowerCase_char :: "char \<Rightarrow> char" where
  "toLowerCase_char c =
     (let n = char_code c
      in if (65 \<le> n \<and> n \<le> 90) \<or> (192 \<le> n \<and> n \<le> 222 \<and> n \<noteq> 215)
         then char_of (n + 32) else c)"

definition toLowerCase :: "string \<Rightarrow> string" where
  "toLowerCase s = map toLowerCase_char s"

definition isWhiteSpace :: "char \<Rightarrow> bool" where
  "isWhiteSpace c = (char_code c \<in> {9, 10, 11, 12, 13, 32, 160})"

definition trim :: "string \<Rightarrow> string" where
  "trim s = rev (dropWhile isWhiteSpace (rev (dropWhile isWhiteSpace s)))"

definition startsWith :: "string \<Rightarrow> string \<Rightarrow> bool" where
  "startsWith s p = (take (length p) s = p)"

fun join :: "string \<Rightarrow> string list \<Rightarrow> string" where
  "join sep [] = []"
| "join sep [x] = x"
| "join sep (x # y # ys) = x @ sep @ join sep (y # ys)"

subsection \<open>Numbers to strings\<close>

definition digit_char :: "int \<Rightarrow> char" where
  "digit_char d = char_of (48 + d)"

function digits10 :: "int \<Rightarrow> string" where
  "digits10 n = (if n < 10 then [digit_char n] else digits10 (n div 10) @ [digit_char (n mod 10)])"
  by pat_completeness auto
termination
  by (relation "measure nat") auto

declare digits10.simps [simp del]

definition int_to_string :: "int \<Rightarrow> string" where
  "int_to_string i = (if i < 0 then CHR ''-'' # digits10 (- i) else digits10 i)"

text \<open>\<open>dec_exponent v\<close> is the integer \<open>n\<close> with \<open>10 ^ (n - 1) \<le> v < 10 ^ n\<close>, for positive \<open>v\<close>.\<close>

definition dec_exponent :: "rat \<Rightarrow> int" where
  "dec_exponent v =
     (if 1 \<le> v then int (length (digits10 \<lfloor>v\<rfloor>))
      else let m = int (length (digits10 \<lfloor>1 / v\<rfloor>))
           in if pow10 (1 - m) \<le> v then 2 - m else 1 - m)"

text \<open>
  The digits of \<^verbatim>\<open>Number.prototype.toString\<close>: the least \<open>k\<close> for which some \<open>k\<close>-digit
  integer \<open>s\<close> and exponent \<open>n\<close> have \<open>s * 10 ^ (n - k)\<close> round to \<open>x\<close>; among the candidates for
  that \<open>k\<close>, the one closest to \<open>x\<close>. Seventeen digits always suffice.
\<close>

definition digit_candidates :: "jsnum \<Rightarrow> int \<Rightarrow> (int \<times> int) list" where
  "digit_candidates x k =
     (let v = valof x; n = dec_exponent v; lo = \<lfloor>v / pow10 (n - k)\<rfloor>;
          cands = [(lo, n), (if lo + 1 < 10 ^ nat k then (lo + 1, n) else (10 ^ nat (k - 1), n + 1))]
      in filter (\<lambda>(s, m). round_to_double False (of_int s * pow10 (m - k)) = x) cands)"

definition closest_candidate :: "jsnum \<Rightarrow> int \<Rightarrow> (int \<times> int) list \<Rightarrow> (int \<times> int)" where
  "closest_candidate x k cs =
     (case cs of
        [c] \<Rightarrow> c
      | [(s1, n1), (s2, n2)] \<Rightarrow>
          let d1 = \<bar>of_int s1 * pow10 (n1 - k) - valof x\<bar>;
              d2 = \<bar>of_int s2 * pow10 (n2 - k) - valof x\<bar>
          in if d1 < d2 then (s1, n1) else if d2 < d1 then (s2, n2)
             else if even s1 then (s1, n1) else (s2, n2)
      | _ \<Rightarrow> (0, 0))"

fun shortest_digits :: "nat \<Rightarrow> jsnum \<Rightarrow> int \<Rightarrow> (int \<times> int \<times> int)" where
  "shortest_digits 0 x k = (case closest_candidate x k (digit_candidates x k) of (s, n) \<Rightarrow> (s, k, n))"
| "shortest_digits (Suc fuel) x k =
     (case digit_candidates x k of
        [] \<Rightarrow> shortest_digits fuel x (k + 1)
      | cs \<Rightarrow> (case closest_candidate x k cs of (s, n) \<Rightarrow> (s, k, n)))"

definition zeros :: "int \<Rightarrow> string" where
  "zeros n = replicate (nat n) CHR ''0''"

definition exponent_part :: "int \<Rightarrow> string" where
  "exponent_part e = CHR ''e'' # (if e < 0 then CHR ''-'' else CHR ''+'') # digits10 \<bar>e\<bar>"

text \<open>\<^verbatim>\<open>Number.prototype.toString()\<close> in radix ten.\<close>

definition Number_toString :: "jsnum \<Rightarrow> string" where
  "Number_toString x =
     (if isNaN x then ''NaN''
      else if isZero x then ''0''
      else if isInf x then (if sign_bit x then ''-Infinity'' else ''Infinity'')
      else let (s, k, n) = shortest_digits 16 (Double False (expo x) (frac x)) 1;
               ds = digits10 s;
               body =
                 (if k \<le> n \<and> n \<le> 21 then ds @ zeros (n - k)
                  else if 0 < n \<and> n \<le> 21 then take (nat n) ds @ ''.'' @ drop (nat n) ds
                  else if - 6 < n \<and> n \<le> 0 then ''0.'' @ zeros (- n) @ ds
                  else if k = 1 then ds @ exponent_part (n - 1)
                  else take 1 ds @ ''.'' @ drop 1 ds @ exponent_part (n - 1))
           in if sign_bit x then CHR ''-'' # body else body)"

subsection \<open>Strings to numbers\<close>

definition digit_value :: "char \<Rightarrow> int" where
  "digit_value c =
     (let n = char_code c
      in if 48 \<le> n \<and> n \<le> 57 then n - 48
         else if 97 \<le> n \<and> n \<le> 102 then n - 87
         else if 65 \<le> n \<and> n \<le> 70 then n - 55
         else 99)"

definition isDigitOf :: "int \<Rightarrow> char \<Rightarrow> bool" where
  "isDigitOf base c = (digit_value c < base)"

definition digits_value :: "int \<Rightarrow> string \<Rightarrow> int" where
  "digits_value base ds = foldl (\<lambda>acc c. acc * base + digit_value c) 0 ds"

definition parse_radix :: "int \<Rightarrow> string \<Rightarrow> jsnum" where
  "parse_radix base ds =
     (if ds \<noteq> [] \<and> list_all (isDigitOf base) ds
      then round_to_double False (of_int (digits_value base ds)) else NaN)"

definition parse_exponent :: "string \<Rightarrow> int option" where
  "parse_exponent r =
     (case r of
        [] \<Rightarrow> Some 0
      | c # r1 \<Rightarrow>
          if c = CHR ''e'' \<or> c = CHR ''E'' then
            (let neg = (r1 \<noteq> [] \<and> hd r1 = CHR ''-'');
                 ds = (if r1 \<noteq> [] \<and> (hd r1 = CHR ''-'' \<or> hd r1 = CHR ''+'') then tl r1 else r1)
             in if ds \<noteq> [] \<and> list_all (isDigitOf 10) ds
                then Some ((if neg then - 1 else 1) * digits_value 10 ds) else None)
          else None)"

definition parse_decimal :: "bool \<Rightarrow> string \<Rightarrow> jsnum" where
  "parse_decimal neg r =
     (if r = ''Infinity'' then Infinity neg
      else let ip = takeWhile (isDigitOf 10) r;
               r1 = dropWhile (isDigitOf 10) r;
               dot = (r1 \<noteq> [] \<and> hd r1 = CHR ''.'');
               fp = (if dot then takeWhile (isDigitOf 10) (tl r1) else []);
               r2 = (if dot then dropWhile (isDigitOf 10) (tl r1) else r1)
           in if ip = [] \<and> fp = [] then NaN
              else (case parse_exponent r2 of
                      None \<Rightarrow> NaN
                    | Some e \<Rightarrow>
                        round_to_double neg
                          (of_int (digits_value 10 (ip @ fp)) * pow10 (e - int (length fp)))))"

text \<open>The conversion of a string to a number (\<^verbatim>\<open>Number(s)\<close>).\<close>

definition StringToNumber :: "string \<Rightarrow> jsnum" where
  "StringToNumber s =
     (let t = trim s
      in if t = [] then zero False
         else if take 2 t = ''0x'' \<or> take 2 t = ''0X'' then parse_radix 16 (drop 2 t)
         else if take 2 t = ''0o'' \<or> take 2 t = ''0O'' then parse_radix 8 (drop 2 t)
         else if take 2 t = ''0b'' \<or> take 2 t = ''0B'' then parse_radix 2 (drop 2 t)
         else if hd t = CHR ''-'' then parse_decimal True (tl t)
         else if hd t = CHR ''+'' then parse_decimal False (tl t)
         else parse_decimal False t)"

section \<open>JavaScript values\<close>

text \<open>
  The values the code handles: the primitives, arrays, plain objects (a list of own
  properties in insertion order), \<^verbatim>\<open>Int32Array\<close>s, and objects of library classes (arrow's
  \<^verbatim>\<open>Vector\<close> and \<^verbatim>\<open>StructRow\<close>, \<^verbatim>\<open>Date\<close>, \<^verbatim>\<open>Uint8Array\<close>). A library object is opaque to this
  code, so \<open>JHost\<close> records what the code can observe of it: the result of \<^verbatim>\<open>toArray()\<close> when
  it is a \<^verbatim>\<open>Vector\<close>, its own enumerable properties, and the results of \<^verbatim>\<open>String(x)\<close>,
  \<^verbatim>\<open>Number(x)\<close> and \<^verbatim>\<open>JSON.parse(JSON.stringify(x))\<close>.
\<close>

datatype jsval =
    JUndefined
  | JNull
  | JBool bool
  | JNum jsnum
  | JStr string
  | JBigInt int
  | JArray "jsval list"
  | JObject "(string \<times> jsval) list"
  | JInt32Array "32 word list"
  | JHost (host_array: "jsval list option") (host_props: "(string \<times> jsval) list")
      (host_str: string) (host_num: jsnum) (host_json: jsval)

text \<open>Errors thrown by the code or by the runtime, with their message.\<close>

datatype error = Error string | SyntaxError string | TypeError string

fun typeof :: "jsval \<Rightarrow> string" where
  "typeof JUndefined = ''undefined''"
| "typeof (JBool b) = ''boolean''"
| "typeof (JNum x) = ''number''"
| "typeof (JStr s) = ''string''"
| "typeof (JBigInt i) = ''bigint''"
| "typeof v = ''object''"

text \<open>Truthiness, as tested by \<^verbatim>\<open>!x\<close>, \<^verbatim>\<open>x && y\<close> and \<^verbatim>\<open>if (x)\<close>.\<close>

fun truthy :: "jsval \<Rightarrow> bool" where
  "truthy JUndefined = False"
| "truthy JNull = False"
| "truthy (JBool b) = b"
| "truthy (JNum x) = (\<not> isZero x \<and> \<not> isNaN x)"
| "truthy (JStr s) = (s \<noteq> [])"
| "truthy (JBigInt i) = (i \<noteq> 0)"
| "truthy v = True"

text \<open>
  Modelled from the spec: \<^verbatim>\<open>notNullOrUndefined\<close> of \<^verbatim>\<open>src/lib/utils\<close>, which is not among the
  sources; as its name and the spec's word non-null say, it holds of every value but
  \<^verbatim>\<open>null\<close> and \<^verbatim>\<open>undefined\<close>.
\<close>

definition notNullOrUndefined :: "jsval \<Rightarrow> bool" where
  "notNullOrUndefined v = (v \<noteq> JNull \<and> v \<noteq> JUndefined)"

definition isArray :: "jsval \<Rightarrow> bool" where
  "isArray v = (case v of JArray xs \<Rightarrow> True | _ \<Rightarrow> False)"

text \<open>\<^verbatim>\<open>String(v)\<close>, which is also what a template literal \<^verbatim>\<open>`${v}`\<close> inserts.\<close>

fun String_js :: "jsval \<Rightarrow> string" where
  "String_js JUndefined = ''undefined''"
| "String_js JNull = ''null''"
| "String_js (JBool b) = (if b then ''true'' else ''false'')"
| "String_js (JNum x) = Number_toString x"
| "String_js (JStr s) = s"
| "String_js (JBigInt i) = int_to_string i"
| "String_js (JArray xs) =
     join '','' (map (\<lambda>v. if v = JUndefined \<or> v = JNull then [] else String_js v) xs)"
| "String_js (JObject kvs) = ''[object Object]''"
| "String_js (JInt32Array ws) = join '','' (map (\<lambda>w. int_to_string (sint w)) ws)"
| "String_js (JHost a p s n j) = s"

text \<open>\<^verbatim>\<open>Number(v)\<close>.\<close>

fun Number_js :: "jsval \<Rightarrow> jsnum" where
  "Number_js JUndefined = NaN"
| "Number_js JNull = num_0"
| "Number_js (JBool b) = (if b then num_1 else num_0)"
| "Number_js (JNum x) = x"
| "Number_js (JStr s) = StringToNumber s"
| "Number_js (JBigInt i) = num_of_rat (of_int i)"
| "Number_js (JHost a p s n j) = n"
| "Number_js v = StringToNumber (String_js v)"

text \<open>The property list of an object literal, property read and object spread.\<close>

type_synonym jsobject = "(string \<times> jsval) list"

definition get_prop :: "jsobject \<Rightarrow> string \<Rightarrow> jsval" where
  "get_prop obj k = (case map_of obj k of Some v \<Rightarrow> v | None \<Rightarrow> JUndefined)"

text \<open>\<open>spread obj kvs\<close> is \<^verbatim>\<open>{...obj, k1: v1, ..., kn: vn}\<close>.\<close>

definition spread :: "jsobject \<Rightarrow> jsobject \<Rightarrow> jsobject" where
  "spread obj kvs = fold (\<lambda>(k, v). AList.update k v) kvs obj"

definition index_props :: "jsval list \<Rightarrow> jsobject" where
  "index_props xs = map (\<lambda>i. (digits10 (int i), xs ! i)) [0..<length xs]"

text \<open>The own enumerable properties that \<^verbatim>\<open>{...v}\<close> copies.\<close>

fun own_props :: "jsval \<Rightarrow> jsobject" where
  "own_props (JObject kvs) = kvs"
| "own_props (JArray xs) = index_props xs"
| "own_props (JStr s) = index_props (map (\<lambda>c. JStr [c]) s)"
| "own_props (JInt32Array ws) = index_props (map (\<lambda>w. JNum (num_of_rat (of_int (sint w)))) ws)"
| "own_props (JHost a p s n j) = p"
| "own_props v = []"

text \<open>The read \<^verbatim>\<open>v?.k\<close> of a property that no built-in prototype defines.\<close>

fun member_opt :: "jsval \<Rightarrow> string \<Rightarrow> jsval" where
  "member_opt (JObject kvs) k = get_prop kvs k"
| "member_opt (JHost a p s n j) k = get_prop p k"
| "member_opt v k = JUndefined"

text \<open>
  \<^verbatim>\<open>JSON.parse(JSON.stringify(v, replacer))\<close> with the replacer of the source, which turns a
  \<^verbatim>\<open>bigint\<close> into a number. \<open>json_value\<close> is the parsed value of what \<open>v\<close> serialises to,
  \<open>JUndefined\<close> standing for a value that is left out. When \<^verbatim>\<open>undefined\<close> itself is
  serialised, \<^verbatim>\<open>JSON.stringify\<close> returns \<^verbatim>\<open>undefined\<close>, on which \<^verbatim>\<open>JSON.parse\<close> throws. The
  library objects that reach this code all serialise, to the value that \<open>JHost\<close> records.
\<close>

definition json_number :: "jsnum \<Rightarrow> jsval" where
  "json_number x = (if \<not> isFinite x then JNull else if isZero x then JNum (zero False) else JNum x)"

fun json_value :: "jsval \<Rightarrow> jsval" where
  "json_value JUndefined = JUndefined"
| "json_value JNull = JNull"
| "json_value (JBool b) = JBool b"
| "json_value (JNum x) = json_number x"
| "json_value (JStr s) = JStr s"
| "json_value (JBigInt i) = json_number (num_of_rat (of_int i))"
| "json_value (JArray xs) =
     JArray (map (\<lambda>v. if json_value v = JUndefined then JNull else json_value v) xs)"
| "json_value (JObject kvs) =
     JObject (filter (\<lambda>(k, v). v \<noteq> JUndefined) (map (\<lambda>(k, v). (k, json_value v)) kvs))"
| "json_value (JInt32Array ws) =
     JObject (index_props (map (\<lambda>w. JNum (num_of_rat (of_int (sint w)))) ws))"
| "json_value (JHost a p s n j) = j"

definition json_round_trip :: "jsval \<Rightarrow> error + jsval" where
  "json_round_trip v =
     (if v = JUndefined
      then Inl (SyntaxError ''Unexpected token u in JSON at position 0'')
      else Inr (json_value v))"

text \<open>\<^verbatim>\<open>JSON.stringify\<close> of an array of numbers.\<close>

definition json_stringify_numbers :: "jsnum list \<Rightarrow> string" where
  "json_stringify_numbers xs =
     ''['' @ join '','' (map (\<lambda>x. if isFinite x then Number_toString x else ''null'') xs) @ '']''"

section \<open>Column types and cell templates (DataFrameCells.tsx)\<close>

text \<open>
  The string enum \<^verbatim>\<open>ColumnType\<close>. A value of the enum is its string at run time, and
  \<^verbatim>\<open>getColumnTypeFromConfig\<close> returns a string cast to the enum, so the model keeps strings.
\<close>

definition ColumnType_Text :: string where "ColumnType_Text = ''text''"
definition ColumnType_Number :: string where "ColumnType_Number = ''number''"
definition ColumnType_Boolean :: string where "ColumnType_Boolean = ''boolean''"
definition ColumnType_List :: string where "ColumnType_List = ''list''"
definition ColumnType_Url :: string where "ColumnType_Url = ''url''"
definition ColumnType_Image :: string where "ColumnType_Image = ''image''"
definition ColumnType_BarChart :: string where "ColumnType_BarChart = ''bar-chart''"
definition ColumnType_LineChart :: string where "ColumnType_LineChart = ''line-chart''"
definition ColumnType_ProgressChart :: string where "ColumnType_ProgressChart = ''progress-chart''"

text \<open>\<^verbatim>\<open>Object.values(ColumnType)\<close>.\<close>

definition ColumnType_values :: "string list" where
  "ColumnType_values =
     [ColumnType_Text, ColumnType_Number, ColumnType_Boolean, ColumnType_List, ColumnType_Url,
      ColumnType_Image, ColumnType_BarChart, ColumnType_LineChart, ColumnType_ProgressChart]"

text \<open>The string enum \<^verbatim>\<open>GridCellKind\<close> of the grid library.\<close>

definition GridCellKind_Uri :: string where "GridCellKind_Uri = ''uri''"
definition GridCellKind_Text :: string where "GridCellKind_Text = ''text''"
definition GridCellKind_Image :: string where "GridCellKind_Image = ''image''"
definition GridCellKind_RowID :: string where "GridCellKind_RowID = ''row-id''"
definition GridCellKind_Number :: string where "GridCellKind_Number = ''number''"
definition GridCellKind_Bubble :: string where "GridCellKind_Bubble = ''bubble''"
definition GridCellKind_Boolean :: string where "GridCellKind_Boolean = ''boolean''"
definition GridCellKind_Loading :: string where "GridCellKind_Loading = ''loading''"
definition GridCellKind_Markdown :: string where "GridCellKind_Markdown = ''markdown''"
definition GridCellKind_Drilldown :: string where "GridCellKind_Drilldown = ''drilldown''"
definition GridCellKind_Protected :: string where "GridCellKind_Protected = ''protected''"
definition GridCellKind_Custom :: string where "GridCellKind_Custom = ''custom''"

text \<open>A grid cell is an object; the code reads its \<^verbatim>\<open>kind\<close> and \<^verbatim>\<open>data\<close> and copies the rest.\<close>

type_synonym GridCell = jsobject

record QuiverType =
  pandas_type :: string
  numpy_type :: string

record DataFrameCell =
  content :: jsval
  contentType :: "QuiverType option"
  displayContent :: "string option"
  cssId :: "string option"

definition getColumnTypeFromConfig :: "string option \<Rightarrow> string" where
  "getColumnTypeFromConfig typeName0 =
     (case typeName0 of
        None \<Rightarrow> ColumnType_Text
      | Some n \<Rightarrow>
          if n = [] then ColumnType_Text
          else let typeName = trim (toLowerCase n)
               in if list_ex (\<lambda>type. type = typeName) ColumnType_values then typeName
                  else ColumnType_Text)"

text \<open>
  \<^verbatim>\<open>Quiver.getTypeName\<close> is not among the sources: it is the parameter \<open>getTypeName\<close>, which
  gives the name of a type, or nothing.
\<close>

definition getColumnTypeFromQuiver :: "('t \<Rightarrow> string option) \<Rightarrow> 't \<Rightarrow> string" where
  "getColumnTypeFromQuiver getTypeName quiverType =
     (case getTypeName quiverType of
        None \<Rightarrow> ColumnType_Text
      | Some n \<Rightarrow>
          if n = [] then ColumnType_Text
          else let typeName = trim (toLowerCase n)
               in if typeName \<in> set [''unicode''] then ColumnType_Text
                  else if typeName \<in> set [''date'', ''datetime'', ''datetimetz''] then ColumnType_Text
                  else if typeName = ''bool'' then ColumnType_Boolean
                  else if typeName \<in> set [''int64'', ''float64'', ''range''] then ColumnType_Number
                  else if startsWith typeName ''list'' then ColumnType_List
                  else ColumnType_Text)"

text \<open>\<^verbatim>\<open>displayContent.replace(/(\r\n|\n|\r)/gm, " ")\<close>.\<close>

fun remove_line_breaks :: "string \<Rightarrow> string" where
  "remove_line_breaks [] = []"
| "remove_line_breaks [c] = (if c = CHR 0x0D \<or> c = CHR 0x0A then '' '' else [c])"
| "remove_line_breaks (c # d # r) =
     (if c = CHR 0x0D \<and> d = CHR 0x0A then CHR '' '' # remove_line_breaks r
      else if c = CHR 0x0D \<or> c = CHR 0x0A then CHR '' '' # remove_line_breaks (d # r)
      else c # remove_line_breaks (d # r))"

text \<open>\<^verbatim>\<open>Quiver.format\<close> is not among the sources: it is the parameter \<open>format\<close>.\<close>

definition getDisplayContent ::
  "(jsval \<Rightarrow> QuiverType option \<Rightarrow> string) \<Rightarrow> DataFrameCell \<Rightarrow> string" where
  "getDisplayContent format quiverCell =
     (let displayContent =
            (case displayContent quiverCell of
               None \<Rightarrow> format (content quiverCell) (contentType quiverCell)
             | Some d \<Rightarrow> if d = [] then format (content quiverCell) (contentType quiverCell) else d)
      in remove_line_breaks displayContent)"

text \<open>
  The regular expressions of the runtime are the parameter \<open>regex_exec\<close>: given a pattern,
  the flags and a subject it throws when the pattern is not a valid expression, and
  otherwise gives the first match (the matched text followed by the groups), or nothing.
\<close>

type_synonym regex = "string \<Rightarrow> string \<Rightarrow> string \<Rightarrow> error + string list option"



definition backslash_s :: string where
  "backslash_s = [CHR 0x5C, CHR ''s'']"

text \<open>The template literal from which \<^verbatim>\<open>extractCssProperty\<close> builds its expression.\<close>

definition css_property_pattern :: "string \<Rightarrow> string \<Rightarrow> string" where
  "css_property_pattern htmlElementId property =
     htmlElementId @ ''[^{]*{(?:[^}]*['' @ backslash_s @ '';]{1})?'' @ property
       @ '':'' @ backslash_s @ ''*([^;'' @ backslash_s @ '']+)[;]?.*}''"

definition extractCssProperty ::
  "regex \<Rightarrow> string \<Rightarrow> string \<Rightarrow> string \<Rightarrow> error + string option" where
  "extractCssProperty regex_exec htmlElementId property cssStyle =
     (case regex_exec (css_property_pattern htmlElementId property) ''gm'' cssStyle of
        Inl e \<Rightarrow> Inl e
      | Inr None \<Rightarrow> Inr None
      | Inr (Some match) \<Rightarrow> Inr (if 1 < length match then Some (match ! 1) else None))"

definition getCellTemplate :: "string \<Rightarrow> bool \<Rightarrow> bool \<Rightarrow> error + GridCell" where
  "getCellTemplate type readonly isIndex =
     (let style = (if isIndex then ''faded'' else ''normal'')
      in if type = ColumnType_Text then
           Inr [(''kind'', JStr GridCellKind_Text), (''data'', JStr []), (''displayData'', JStr []),
                (''allowOverlay'', JBool True), (''readonly'', JBool readonly),
                (''style'', JStr style)]
         else if type = ColumnType_Boolean then
           Inr [(''kind'', JStr GridCellKind_Boolean), (''data'', JBool False),
                (''readonly'', JBool readonly), (''allowOverlay'', JBool False),
                (''style'', JStr style)]
         else if type = ColumnType_Number then
           Inr [(''kind'', JStr GridCellKind_Number), (''data'', JUndefined),
                (''displayData'', JStr []), (''readonly'', JBool readonly),
                (''allowOverlay'', JBool True), (''contentAlign'', JStr ''right''),
                (''style'', JStr style)]
         else if type = ColumnType_List then
           Inr [(''kind'', JStr GridCellKind_Bubble), (''data'', JArray []),
                (''allowOverlay'', JBool True), (''style'', JStr style)]
         else if type = ColumnType_Url then
           Inr [(''kind'', JStr GridCellKind_Uri), (''data'', JStr []),
                (''readonly'', JBool readonly), (''allowOverlay'', JBool True),
                (''style'', JStr style)]
         else if type = ColumnType_Image then
           Inr [(''kind'', JStr GridCellKind_Image), (''data'', JArray []),
                (''displayData'', JArray []), (''allowAdd'', JBool (\<not> readonly)),
                (''allowOverlay'', JBool True), (''style'', JStr style)]
         else if type = ColumnType_LineChart then
           Inr [(''kind'', JStr GridCellKind_Custom), (''allowOverlay'', JBool False),
                (''copyData'', JStr ''[]''),
                (''data'', JObject [(''kind'', JStr ''sparkline-cell''), (''values'', JArray []),
                                    (''displayValues'', JArray []), (''graphKind'', JStr ''line''),
                                    (''yAxis'', JArray [JNum num_0, JNum num_1])])]
         else if type = ColumnType_BarChart then
           Inr [(''kind'', JStr GridCellKind_Custom), (''allowOverlay'', JBool False),
                (''copyData'', JStr ''[]''),
                (''data'', JObject [(''kind'', JStr ''sparkline-cell''), (''values'', JArray []),
                                    (''graphKind'', JStr ''bar''),
                                    (''yAxis'', JArray [JNum num_0, JNum num_1])])]
         else if type = ColumnType_ProgressChart then
           Inr [(''kind'', JStr GridCellKind_Custom), (''allowOverlay'', JBool False),
                (''copyData'', JStr []),
                (''data'', JObject [(''kind'', JStr ''range-cell''), (''min'', JNum num_0),
                                    (''max'', JNum num_1), (''value'', JNum num_0),
                                    (''step'', JNum num_01), (''label'', JStr ''0%''),
                                    (''measureLabel'', JStr ''100%'')])]
         else Inl (Error (''Unsupported cell type: '' @ type)))"

definition getColumnSortMode :: "string \<Rightarrow> string" where
  "getColumnSortMode columnType =
     (if columnType = ColumnType_Number \<or> columnType = ColumnType_ProgressChart
      then ''smart'' else ''default'')"

definition getEmptyCell :: GridCell where
  "getEmptyCell = [(''kind'', JStr GridCellKind_Loading), (''allowOverlay'', JBool False)]"

text \<open>The second argument defaults to the empty string.\<close>

definition getErrorCell :: "string \<Rightarrow> string \<Rightarrow> error + GridCell" where
  "getErrorCell errorMsg errorDetails =
     (case getCellTemplate ColumnType_Text True False of
        Inl e \<Rightarrow> Inl e
      | Inr template \<Rightarrow>
          Inr (spread template
                 [(''data'', JStr (errorMsg @ (if errorDetails \<noteq> [] then CHR 0x0A # errorDetails else []))),
                  (''displayData'', JStr errorMsg),
                  (''themeOverride'', JObject [(''textDark'', JStr ''#ff4b4b'')])]))"

section \<open>Filling cells (DataFrameCells.tsx)\<close>

definition applyPandasStylerCss :: "regex \<Rightarrow> GridCell \<Rightarrow> string \<Rightarrow> string \<Rightarrow> error + GridCell" where
  "applyPandasStylerCss regex_exec cell cssId' cssStyles =
     (case extractCssProperty regex_exec cssId' ''color'' cssStyles of
        Inl e \<Rightarrow> Inl e
      | Inr fontColor \<Rightarrow>
          (let themeOverride1 =
                 (case fontColor of
                    None \<Rightarrow> []
                  | Some c \<Rightarrow> if c \<noteq> [] then [(''textDark'', JStr c)] else [])
           in case extractCssProperty regex_exec cssId' ''background-color'' cssStyles of
                Inl e \<Rightarrow> Inl e
              | Inr backgroundColor \<Rightarrow>
                  (let themeOverride =
                         (case backgroundColor of
                            None \<Rightarrow> themeOverride1
                          | Some c \<Rightarrow>
                              if c \<noteq> [] then spread themeOverride1 [(''bgCell'', JStr c)]
                              else themeOverride1)
                   in Inr (spread cell [(''themeOverride'', JObject themeOverride)]))))"

definition fillListCell :: "GridCell \<Rightarrow> jsval \<Rightarrow> error + GridCell" where
  "fillListCell cell data =
     (if notNullOrUndefined data then
        (case json_round_trip data of
           Inl e \<Rightarrow> Inl e
         | Inr parsed \<Rightarrow>
             (let cellData = (if \<not> isArray parsed then JArray [JStr (String_js parsed)] else parsed)
              in Inr (spread cell [(''data'', cellData)])))
      else Inr (spread cell [(''data'', JArray [])]))"

definition fillUrlCell :: "GridCell \<Rightarrow> jsval \<Rightarrow> GridCell" where
  "fillUrlCell cell data =
     spread cell [(''data'', if notNullOrUndefined data then JStr (String_js data) else JStr [])]"

definition fillTextCell :: "GridCell \<Rightarrow> jsval \<Rightarrow> string \<Rightarrow> GridCell" where
  "fillTextCell cell data displayData =
     spread cell
       [(''data'', if typeof data = ''string'' \<or> \<not> notNullOrUndefined data then data
                   else JStr displayData),
        (''displayData'', JStr displayData)]"

definition fillBooleanCell :: "GridCell \<Rightarrow> jsval \<Rightarrow> error + GridCell" where
  "fillBooleanCell cell data =
     (if notNullOrUndefined data \<and> typeof data \<noteq> ''boolean''
      then getErrorCell (''Incompatible boolean value: '' @ String_js data) []
      else Inr (spread cell [(''data'', data)]))"

definition fillNumberCell :: "GridCell \<Rightarrow> jsval \<Rightarrow> string \<Rightarrow> error + GridCell" where
  "fillNumberCell cell data displayData =
     (if notNullOrUndefined data then
        (let cellData =
               (case data of
                  JInt32Array ws \<Rightarrow>
                    Number_js (case ws of [] \<Rightarrow> JUndefined
                               | w # _ \<Rightarrow> JNum (num_of_rat (of_int (sint w))))
                | _ \<Rightarrow> Number_js data)
         in if isNaN cellData
            then getErrorCell (''Incompatible number value: '' @ String_js data) []
            else Inr (spread cell [(''data'', JNum cellData), (''displayData'', JStr displayData)]))
      else Inr (spread cell [(''data'', JUndefined), (''displayData'', JStr displayData)]))"

definition fillImageCell :: "GridCell \<Rightarrow> jsval \<Rightarrow> GridCell" where
  "fillImageCell cell data =
     (let imageUrls = (if notNullOrUndefined data then JArray [JStr (String_js data)] else JArray [])
      in spread cell [(''data'', imageUrls), (''displayData'', imageUrls)])"

text \<open>
  One run of the callback that \<^verbatim>\<open>fillChartCell\<close> gives to \<^verbatim>\<open>forEach\<close>, on the variables it
  assigns. On a NaN the callback returns an error cell; \<^verbatim>\<open>forEach\<close> discards what its
  callback returns and goes on to the next element, so this only skips the \<^verbatim>\<open>push\<close>.
\<close>

definition chart_step :: "jsval \<Rightarrow> jsnum \<times> jsnum \<times> jsnum list \<Rightarrow> jsnum \<times> jsnum \<times> jsnum list" where
  "chart_step v st =
     (case st of (maxValue, minValue, convertedChartData) \<Rightarrow>
        (let convertedValue = Number_js v;
             maxValue' = (if fgt convertedValue maxValue then convertedValue else maxValue);
             minValue' = (if flt convertedValue minValue then convertedValue else minValue)
         in if isNaN convertedValue then (maxValue', minValue', convertedChartData)
            else (maxValue', minValue', convertedChartData @ [convertedValue])))"

definition fillChartCell :: "GridCell \<Rightarrow> jsval \<Rightarrow> error + GridCell" where
  "fillChartCell cell data =
     (if \<not> notNullOrUndefined data then Inr getEmptyCell
      else
        (case (case data of
                 JArray xs \<Rightarrow> Some xs
               | JHost (Some xs) p s n j \<Rightarrow> Some xs
               | _ \<Rightarrow> None) of
           None \<Rightarrow>
             getErrorCell (''Incompatible chart value: '' @ String_js data)
               ''The provided value is not an array.''
         | Some chartData \<Rightarrow>
             (let (convertedChartData, normalizedChartData) =
                    (if 1 \<le> length chartData then
                       (case fold chart_step chartData
                               (Number_js (hd chartData), Number_js (hd chartData), []) of
                          (maxValue, minValue, converted) \<Rightarrow>
                            if fgt maxValue num_1 \<or> flt minValue num_0
                            then (converted,
                                  map (\<lambda>v. fdiv (fsub v minValue) (fsub maxValue minValue)) converted)
                            else (converted, converted))
                     else ([], []))
              in Inr (spread cell
                        [(''copyData'', JStr (json_stringify_numbers convertedChartData)),
                         (''data'',
                          JObject (spread (own_props (get_prop cell ''data''))
                                     [(''values'', JArray (map JNum normalizedChartData)),
                                      (''displayValues'', JArray (map JNum convertedChartData))]))]))))"

definition fillProgressCell :: "GridCell \<Rightarrow> jsval \<Rightarrow> error + GridCell" where
  "fillProgressCell cell data =
     (if \<not> notNullOrUndefined data then Inr getEmptyCell
      else
        (let cellData = Number_js data
         in if isNaN cellData \<or> flt cellData num_0 \<or> fgt cellData num_1
            then getErrorCell (''Incompatible progress value: '' @ String_js data)
                   ''The value has to be between 0 and 1.''
            else Inr (spread cell
                        [(''copyData'', JStr (String_js data)),
                         (''data'',
                          JObject (spread (own_props (get_prop cell ''data''))
                                     [(''value'', JNum cellData),
                                      (''label'',
                                       JStr (Number_toString (Math_round (fmul cellData num_100))
                                             @ ''%''))]))])))"

text \<open>
  The kind that \<^verbatim>\<open>fillCellTemplate\<close> and \<^verbatim>\<open>updateCell\<close> dispatch on: the kind of the cell, or
  for a custom cell the kind in its data.
\<close>

definition cellKind_of :: "GridCell \<Rightarrow> jsval" where
  "cellKind_of cell =
     (if get_prop cell ''kind'' = JStr GridCellKind_Custom
      then (let d = get_prop cell ''data''
            in if d = JUndefined \<or> d = JNull then JUndefined else member_opt d ''kind'')
      else get_prop cell ''kind'')"

text \<open>The third argument defaults to \<^verbatim>\<open>undefined\<close>, here \<open>None\<close>.\<close>

definition fillCellTemplate ::
  "regex \<Rightarrow> (jsval \<Rightarrow> QuiverType option \<Rightarrow> string) \<Rightarrow> GridCell \<Rightarrow> DataFrameCell \<Rightarrow> string option
     \<Rightarrow> error + GridCell" where
  "fillCellTemplate regex_exec format cellTemplate0 quiverCell cssStyles =
     (let cellKind = cellKind_of cellTemplate0
      in if \<not> truthy cellKind then getErrorCell ''Unable to determine cell type.'' []
         else
           (case (case (cssStyles, cssId quiverCell) of
                    (Some css, Some cid) \<Rightarrow>
                      if css \<noteq> [] \<and> cid \<noteq> []
                      then applyPandasStylerCss regex_exec cellTemplate0 cid css
                      else Inr cellTemplate0
                  | _ \<Rightarrow> Inr cellTemplate0) of
              Inl e \<Rightarrow> Inl e
            | Inr cellTemplate \<Rightarrow>
                if cellKind = JStr GridCellKind_Text then
                  Inr (fillTextCell cellTemplate (content quiverCell)
                         (getDisplayContent format quiverCell))
                else if cellKind = JStr GridCellKind_Number then
                  fillNumberCell cellTemplate (content quiverCell)
                    (getDisplayContent format quiverCell)
                else if cellKind = JStr GridCellKind_Boolean then
                  fillBooleanCell cellTemplate (content quiverCell)
                else if cellKind = JStr GridCellKind_Bubble then
                  fillListCell cellTemplate (content quiverCell)
                else if cellKind = JStr GridCellKind_Uri then
                  Inr (fillUrlCell cellTemplate (content quiverCell))
                else if cellKind = JStr GridCellKind_Image then
                  Inr (fillImageCell cellTemplate (content quiverCell))
                else if cellKind = JStr ''sparkline-cell'' then
                  fillChartCell cellTemplate (content quiverCell)
                else if cellKind = JStr ''range-cell'' then
                  fillProgressCell cellTemplate (content quiverCell)
                else getErrorCell (''Unsupported cell kind: '' @ String_js cellKind) []))"

text \<open>
  \<^verbatim>\<open>updateCell\<close>; \<open>now\<close> is the reading of \<^verbatim>\<open>performance.now()\<close>, and the optional display
  value is \<open>None\<close> when it is \<^verbatim>\<open>undefined\<close>.
\<close>

definition updateCell :: "jsnum \<Rightarrow> GridCell \<Rightarrow> jsval \<Rightarrow> string option \<Rightarrow> error + GridCell" where
  "updateCell now cell newValue newDisplayValue =
     (let cellKind = cellKind_of cell;
          display = (case newDisplayValue of Some d \<Rightarrow> d | None \<Rightarrow> String_js newValue)
      in if \<not> truthy cellKind then getErrorCell ''Unable to determine cell type.'' []
         else if cellKind \<in> set [JStr GridCellKind_Text, JStr GridCellKind_Number,
                                  JStr GridCellKind_Boolean, JStr GridCellKind_Uri] then
           (case (if cellKind = JStr GridCellKind_Text then Inr (fillTextCell cell newValue display)
                  else if cellKind = JStr GridCellKind_Number then fillNumberCell cell newValue display
                  else if cellKind = JStr GridCellKind_Boolean then fillBooleanCell cell newValue
                  else Inr (fillUrlCell cell newValue)) of
              Inl e \<Rightarrow> Inl e
            | Inr updatedCell \<Rightarrow> Inr (spread updatedCell [(''lastUpdated'', JNum now)]))
         else getErrorCell (''Cell cannot be edited: '' @ String_js cellKind) [])"

text \<open>
  An error cell is a cell that \<^verbatim>\<open>getErrorCell\<close> returns for some message and details: the
  message is its \<^verbatim>\<open>displayData\<close>, and its \<^verbatim>\<open>data\<close> is the message, followed by a line break
  and the details when there are details.
\<close>

definition isErrorCell :: "GridCell \<Rightarrow> bool" where
  "isErrorCell cell =
     (case (get_prop cell ''displayData'', get_prop cell ''data'') of
        (JStr msg, JStr d) \<Rightarrow> getErrorCell msg (drop (length msg + 1) d) = Inr cell
      | _ \<Rightarrow> False)"

definition errorMessage :: "GridCell \<Rightarrow> string" where
  "errorMessage cell = (case get_prop cell ''displayData'' of JStr msg \<Rightarrow> msg | _ \<Rightarrow> [])"

section \<open>Columns, the editing cache and the data loader (DataFrame.tsx)\<close>

definition MIN_COLUMN_WIDTH :: jsnum where "MIN_COLUMN_WIDTH = num_35"
definition MAX_COLUMN_WIDTH :: jsnum where "MAX_COLUMN_WIDTH = num_600"

subsection \<open>The built-in Map\<close>

text \<open>
  A \<^verbatim>\<open>Map\<close> keeps its entries in insertion order and compares keys by SameValueZero, which is
  the parameter \<open>eq\<close> here. \<^verbatim>\<open>set\<close> mutates the map; the model returns the new map.
\<close>

fun Map_get :: "('k \<Rightarrow> 'k \<Rightarrow> bool) \<Rightarrow> ('k \<times> 'v) list \<Rightarrow> 'k \<Rightarrow> 'v option" where
  "Map_get eq [] k = None"
| "Map_get eq ((k', v) # m) k = (if eq k' k then Some v else Map_get eq m k)"

fun Map_set :: "('k \<Rightarrow> 'k \<Rightarrow> bool) \<Rightarrow> ('k \<times> 'v) list \<Rightarrow> 'k \<Rightarrow> 'v \<Rightarrow> ('k \<times> 'v) list" where
  "Map_set eq [] k v = [(k, v)]"
| "Map_set eq ((k', v') # m) k v =
     (if eq k' k then (k', v) # m else (k', v') # Map_set eq m k v)"

definition Map_has :: "('k \<Rightarrow> 'k \<Rightarrow> bool) \<Rightarrow> ('k \<times> 'v) list \<Rightarrow> 'k \<Rightarrow> bool" where
  "Map_has eq m k = (Map_get eq m k \<noteq> None)"

text \<open>The keys of the column configuration are strings or numbers.\<close>

datatype mapkey = KStr string | KNum jsnum

fun key_eq :: "mapkey \<Rightarrow> mapkey \<Rightarrow> bool" where
  "key_eq (KStr a) (KStr b) = (a = b)"
| "key_eq (KNum a) (KNum b) = sameValueZero a b"
| "key_eq a b = False"

subsection \<open>Column configuration\<close>

record ColumnConfigProps =
  cfg_width :: "jsnum option"
  cfg_title :: "string option"
  cfg_type :: "string option"
  cfg_hide :: "bool option"
  cfg_editable :: "bool option"

record GridColumnWithCellTemplate =
  column_id :: string
  title :: string
  hasMenu :: bool
  width :: "jsnum option"
  columnType :: string
  columnIndex :: jsnum
  quiverType :: "QuiverType option"
  isEditable :: bool
  isHidden :: "bool option"
  isIndex :: bool

text \<open>
  \<^verbatim>\<open>applyColumnConfig\<close>; the result \<open>None\<close> is the \<^verbatim>\<open>null\<close> returned for a hidden column, and
  an absent configuration map is \<open>None\<close>. An optional field of the configuration is \<open>None\<close>
  when it is \<^verbatim>\<open>null\<close> or \<^verbatim>\<open>undefined\<close>.
\<close>

definition applyColumnConfig ::
  "GridColumnWithCellTemplate \<Rightarrow> (mapkey \<times> ColumnConfigProps) list option
     \<Rightarrow> GridColumnWithCellTemplate option" where
  "applyColumnConfig column columnsConfig0 =
     (case columnsConfig0 of
        None \<Rightarrow> Some column
      | Some columnsConfig \<Rightarrow>
          (let columnConfig =
                 (if Map_has key_eq columnsConfig (KNum (columnIndex column))
                  then Map_get key_eq columnsConfig (KNum (columnIndex column))
                  else if Map_has key_eq columnsConfig (KStr (title column))
                  then Map_get key_eq columnsConfig (KStr (title column))
                  else None)
           in case columnConfig of
                None \<Rightarrow> Some column
              | Some cc \<Rightarrow>
                  if cfg_hide cc \<noteq> None \<and> cfg_hide cc = Some True then None
                  else
                    (let c1 = (case cfg_title cc of
                                 Some t \<Rightarrow> column\<lparr>title := t\<rparr>
                               | None \<Rightarrow> column);
                         c2 = (case cfg_width cc of
                                 Some w \<Rightarrow>
                                   c1\<lparr>width :=
                                        Some (Math_max (Math_min w MIN_COLUMN_WIDTH)
                                                MAX_COLUMN_WIDTH)\<rparr>
                               | None \<Rightarrow> c1);
                         c3 = (case cfg_type cc of
                                 Some t \<Rightarrow> c2\<lparr>columnType := getColumnTypeFromConfig (Some t)\<rparr>
                               | None \<Rightarrow> c2);
                         c4 = (case cfg_editable cc of
                                 Some e \<Rightarrow> c3\<lparr>isEditable := e\<rparr>
                               | None \<Rightarrow> c3)
                     in Some c4)))"

subsection \<open>The editing cache\<close>

text \<open>
  \<^verbatim>\<open>EditingCache\<close> holds one field, \<^verbatim>\<open>cachedContent\<close>: a map from the column to a map from
  the row to the cell.
\<close>

type_synonym EditingCache = "(jsnum \<times> (jsnum \<times> GridCell) list) list"

definition EditingCache_new :: EditingCache where
  "EditingCache_new = []"

definition EditingCache_get :: "EditingCache \<Rightarrow> jsnum \<Rightarrow> jsnum \<Rightarrow> GridCell option" where
  "EditingCache_get cachedContent col row =
     (case Map_get sameValueZero cachedContent col of
        None \<Rightarrow> None
      | Some colCache \<Rightarrow> Map_get sameValueZero colCache row)"

text \<open>
  \<^verbatim>\<open>set\<close> puts an empty map at the column when there is none, then mutates the map at the
  column; the model stores the changed inner map back at the column.
\<close>

definition EditingCache_set :: "EditingCache \<Rightarrow> jsnum \<Rightarrow> jsnum \<Rightarrow> GridCell \<Rightarrow> EditingCache" where
  "EditingCache_set cachedContent col row val =
     (let cachedContent1 =
            (if Map_get sameValueZero cachedContent col = None
             then Map_set sameValueZero cachedContent col []
             else cachedContent)
      in case Map_get sameValueZero cachedContent1 col of
           None \<Rightarrow> cachedContent1
         | Some rowCache \<Rightarrow>
             Map_set sameValueZero cachedContent1 col (Map_set sameValueZero rowCache row val))"

subsection \<open>The data loader\<close>

text \<open>
  The class \<^verbatim>\<open>Quiver\<close> is not among the sources. The table is what the loader reads of it:
  \<^verbatim>\<open>isEmpty()\<close>, \<^verbatim>\<open>dimensions.rows\<close>, \<^verbatim>\<open>cssStyles\<close> and \<^verbatim>\<open>getCell\<close>, which gives a cell or throws.
\<close>

record Quiver =
  isEmpty :: bool
  dimensions_rows :: jsnum
  cssStyles :: "string option"
  getCell :: "jsnum \<Rightarrow> jsnum \<Rightarrow> error + DataFrameCell"

text \<open>
  What the callbacks of \<^verbatim>\<open>useDataLoader\<close> close over: the source table, the columns and the
  editing cache. Only the cache is ever assigned to.
\<close>

record DataLoader =
  table_data :: Quiver
  columns :: "GridColumnWithCellTemplate list"
  editingCache :: EditingCache

definition numRows :: "Quiver \<Rightarrow> jsnum" where
  "numRows d = (if isEmpty d then num_1 else fsub (dimensions_rows d) num_1)"

text \<open>\<^verbatim>\<open>xs[i]\<close> for a number \<open>i\<close>: an element when \<open>i\<close> is an index of the array.\<close>

definition array_index :: "'a list \<Rightarrow> jsnum \<Rightarrow> 'a option" where
  "array_index xs i =
     (if isFinite i \<and> valof i = of_int \<lfloor>valof i\<rfloor> \<and> 0 \<le> valof i \<and> \<lfloor>valof i\<rfloor> < int (length xs)
      then Some (xs ! nat \<lfloor>valof i\<rfloor>) else None)"

definition array_length :: "'a list \<Rightarrow> jsnum" where
  "array_length xs = num_of_rat (of_nat (length xs))"

text \<open>
  \<^verbatim>\<open>getCellContent\<close>. Reading \<^verbatim>\<open>column.columnType\<close> of an undefined column throws a
  \<^verbatim>\<open>TypeError\<close>; what \<^verbatim>\<open>getCell\<close> or \<^verbatim>\<open>fillCellTemplate\<close> throws is caught, and the template is
  returned.
\<close>

definition getCellContent ::
  "regex \<Rightarrow> (jsval \<Rightarrow> QuiverType option \<Rightarrow> string) \<Rightarrow> DataLoader \<Rightarrow> jsnum \<times> jsnum
     \<Rightarrow> error + GridCell" where
  "getCellContent regex_exec format h coords =
     (case coords of (col, row) \<Rightarrow>
        if isEmpty (table_data h) then
          (case getCellTemplate ColumnType_Text True True of
             Inl e \<Rightarrow> Inl e
           | Inr t \<Rightarrow> Inr (spread t [(''displayData'', JStr ''empty'')]))
        else if fgt col (fsub (array_length (columns h)) num_1) then
          getCellTemplate ColumnType_Text True False
        else
          (case EditingCache_get (editingCache h) col row of
             Some cell \<Rightarrow> Inr cell
           | None \<Rightarrow>
               (case array_index (columns h) col of
                  None \<Rightarrow>
                    Inl (TypeError ''Cannot read properties of undefined (reading columnType)'')
                | Some column \<Rightarrow>
                    (case getCellTemplate (columnType column) (\<not> isEditable column)
                            (isIndex column) of
                       Inl e \<Rightarrow> Inl e
                     | Inr cellTemplate \<Rightarrow>
                         if fgt row (fsub (numRows (table_data h)) num_1) then Inr cellTemplate
                         else
                           (case (case getCell (table_data h) (fadd row num_1)
                                         (columnIndex column) of
                                    Inl e \<Rightarrow> Inl e
                                  | Inr quiverCell \<Rightarrow>
                                      fillCellTemplate regex_exec format cellTemplate quiverCell
                                        (cssStyles (table_data h))) of
                              Inl error \<Rightarrow> Inr cellTemplate
                            | Inr cell \<Rightarrow> Inr cell)))))"

text \<open>
  The sorting hook of the grid library gives \<^verbatim>\<open>getOriginalIndex\<close>, the parameter of that
  name, and \<^verbatim>\<open>getCellContentSorted\<close>, which reads the cell at the original index of the row.
\<close>

definition getCellContentSorted ::
  "regex \<Rightarrow> (jsval \<Rightarrow> QuiverType option \<Rightarrow> string) \<Rightarrow> (jsnum \<Rightarrow> jsnum) \<Rightarrow> DataLoader
     \<Rightarrow> jsnum \<times> jsnum \<Rightarrow> error + GridCell" where
  "getCellContentSorted regex_exec format getOriginalIndex h coords =
     (case coords of (col, row) \<Rightarrow> getCellContent regex_exec format h (col, getOriginalIndex row))"

text \<open>
  \<^verbatim>\<open>onCellEdited\<close>, as a function from the state of the loader to its next state;
  \<^verbatim>\<open>isEditableGridCell\<close> belongs to the grid library and is a parameter.
\<close>

definition onCellEdited ::
  "regex \<Rightarrow> (jsval \<Rightarrow> QuiverType option \<Rightarrow> string) \<Rightarrow> (GridCell \<Rightarrow> bool) \<Rightarrow> (jsnum \<Rightarrow> jsnum)
     \<Rightarrow> jsnum \<Rightarrow> DataLoader \<Rightarrow> jsnum \<times> jsnum \<Rightarrow> GridCell \<Rightarrow> error + DataLoader" where
  "onCellEdited regex_exec format isEditableGridCell getOriginalIndex now h coords newVal =
     (case coords of (col, row) \<Rightarrow>
        (case getCellContentSorted regex_exec format getOriginalIndex h (col, row) of
           Inl e \<Rightarrow> Inl e
         | Inr currentCell \<Rightarrow>
             if \<not> isEditableGridCell newVal \<or> \<not> isEditableGridCell currentCell then Inr h
             else if typeof (get_prop newVal ''data'') = ''string''
                     \<or> typeof (get_prop newVal ''data'') = ''number''
                     \<or> typeof (get_prop newVal ''data'') = ''boolean'' then
               (case updateCell now currentCell (get_prop newVal ''data'') None of
                  Inl e \<Rightarrow> Inl e
                | Inr cell \<Rightarrow>
                    Inr (h\<lparr>editingCache :=
                              EditingCache_set (editingCache h) col (getOriginalIndex row) cell\<rparr>))
             else Inr h))"

section \<open>Notions used to state the properties\<close>

text \<open>Whether a call returned an error cell, and the message of the cell it returned.\<close>

definition is_error_result :: "error + GridCell \<Rightarrow> bool" where
  "is_error_result r = (case r of Inl e \<Rightarrow> False | Inr c \<Rightarrow> isErrorCell c)"

definition result_message :: "error + GridCell \<Rightarrow> string" where
  "result_message r = (case r of Inl e \<Rightarrow> [] | Inr c \<Rightarrow> errorMessage c)"


text \<open>The template of a column type, for an editable column that is not an index.\<close>

definition template_of :: "string \<Rightarrow> GridCell" where
  "template_of type = (case getCellTemplate type False False of Inl e \<Rightarrow> [] | Inr c \<Rightarrow> c)"

definition num_2 :: jsnum where "num_2 = Double False 1024 0"
definition num_half :: jsnum where "num_half = Double False 1022 0"
definition num_5 :: jsnum where "num_5 = Double False 1025 0x4000000000000"

text \<open>
  The reading of claim C1: the returned cell carries the number clamped into the interval
  from 0 to 1, and the label made from the clamped number.
\<close>

definition clamp01 :: "jsnum \<Rightarrow> jsnum" where
  "clamp01 x = Math_max num_0 (Math_min x num_1)"

definition progress_clamped :: "GridCell \<Rightarrow> jsval \<Rightarrow> bool" where
  "progress_clamped cell v =
     (case fillProgressCell cell v of
        Inl e \<Rightarrow> False
      | Inr c \<Rightarrow>
          member_opt (get_prop c ''data'') ''value'' = JNum (clamp01 (Number_js v))
          \<and> member_opt (get_prop c ''data'') ''label''
              = JStr (Number_toString (Math_round (fmul (clamp01 (Number_js v)) num_100)) @ ''%''))"

text \<open>
  The configuration that \<^verbatim>\<open>applyColumnConfig\<close> finds for a column: the entry at the index of
  the column, else the entry at its title.
\<close>

definition column_config ::
  "GridColumnWithCellTemplate \<Rightarrow> (mapkey \<times> ColumnConfigProps) list \<Rightarrow> ColumnConfigProps option" where
  "column_config column columnsConfig =
     (if Map_has key_eq columnsConfig (KNum (columnIndex column))
      then Map_get key_eq columnsConfig (KNum (columnIndex column))
      else if Map_has key_eq columnsConfig (KStr (title column))
      then Map_get key_eq columnsConfig (KStr (title column))
      else None)"

text \<open>The kind, the kind dispatched on and the style of a returned template.\<close>

definition kind_and_style :: "error + GridCell \<Rightarrow> (jsval \<times> jsval \<times> jsval) option" where
  "kind_and_style r =
     (case r of
        Inl e \<Rightarrow> None
      | Inr c \<Rightarrow> Some (get_prop c ''kind'', cellKind_of c, get_prop c ''style''))"

text \<open>Whether the style of a returned template is \<^verbatim>\<open>faded\<close>.\<close>

definition style_is_faded :: "error + GridCell \<Rightarrow> bool" where
  "style_is_faded r = (case r of Inl e \<Rightarrow> False | Inr c \<Rightarrow> get_prop c ''style'' = JStr ''faded'')"



text \<open>Example arguments for the closed statements below.\<close>

definition example_column :: GridColumnWithCellTemplate where
  "example_column =
     \<lparr>column_id = ''column-a-0'', title = ''a'', hasMenu = False, width = None,
      columnType = ColumnType_Number, columnIndex = num_0, quiverType = None,
      isEditable = False, isHidden = Some False, isIndex = False\<rparr>"

definition example_config :: ColumnConfigProps where
  "example_config =
     \<lparr>cfg_width = Some num_100, cfg_title = None, cfg_type = None, cfg_hide = None,
      cfg_editable = None\<rparr>"

definition example_regex :: regex where
  "example_regex pattern flags subject = Inr None"

definition example_format :: "jsval \<Rightarrow> QuiverType option \<Rightarrow> string" where
  "example_format v ty = String_js v"

definition example_quiverCell :: DataFrameCell where
  "example_quiverCell =
     \<lparr>content = JNum num_5, contentType = None, displayContent = None, cssId = None\<rparr>"



definition example_getCell :: "jsnum \<Rightarrow> jsnum \<Rightarrow> error + DataFrameCell" where
  "example_getCell r c = Inr example_quiverCell"

definition example_table :: Quiver where
  "example_table =
     \<lparr>isEmpty = False, dimensions_rows = num_2, cssStyles = None, getCell = example_getCell\<rparr>"

definition example_edited_cell :: GridCell where
  "example_edited_cell =
     [(''kind'', JStr GridCellKind_Number), (''data'', JNum num_2), (''displayData'', JStr ''2'')]"

text \<open>A loader of a table with one column, with an edit recorded at column 5 and row 0.\<close>

definition example_loader :: DataLoader where
  "example_loader =
     \<lparr>table_data = example_table, columns = [example_column],
      editingCache = EditingCache_set EditingCache_new num_5 num_0 example_edited_cell\<rparr>"

text \<open>The same table with the edit recorded at column 0 and row 0.\<close>

definition example_loader_edited :: DataLoader where
  "example_loader_edited =
     \<lparr>table_data = example_table, columns = [example_column],
      editingCache = EditingCache_set EditingCache_new num_0 num_0 example_edited_cell\<rparr>"

section \<open>An explicit store for the objects that filling a cell touches\<close>

text \<open>
  Whether a function changes an object that belongs to someone else cannot be said of a
  function from values to values, so the functions that fill cells are given a second
  time over a store of objects. An address is an index into the store and a new object
  goes behind the last one. A raw value of the table is an immediate value or the address
  of an object of the table; a grid cell is stored with its properties by value.
\<close>

type_synonym addr = nat

datatype ref = Val jsval | Ref addr

datatype object =
    TableObject jsval
  | QuiverCellObject ref "QuiverType option" "string option" "string option"
  | CellObject jsobject
  | NumberArray "jsnum list"

type_synonym store = "object list"

definition alloc :: "object \<Rightarrow> store \<Rightarrow> addr \<times> store" where
  "alloc obj s = (length s, s @ [obj])"

definition deref :: "store \<Rightarrow> ref \<Rightarrow> jsval" where
  "deref s r =
     (case r of
        Val v \<Rightarrow> v
      | Ref a \<Rightarrow>
          if a < length s
          then (case s ! a of
                  TableObject v \<Rightarrow> v
                | CellObject c \<Rightarrow> JObject c
                | NumberArray xs \<Rightarrow> JArray (map JNum xs)
                | QuiverCellObject c t d i \<Rightarrow> JUndefined)
          else JUndefined)"

definition cell_at :: "store \<Rightarrow> addr \<Rightarrow> GridCell" where
  "cell_at s a = (if a < length s then (case s ! a of CellObject c \<Rightarrow> c | _ \<Rightarrow> []) else [])"

definition numbers_at :: "store \<Rightarrow> addr \<Rightarrow> jsnum list" where
  "numbers_at s a = (if a < length s then (case s ! a of NumberArray xs \<Rightarrow> xs | _ \<Rightarrow> []) else [])"

definition content_ref_at :: "store \<Rightarrow> addr \<Rightarrow> ref" where
  "content_ref_at s a =
     (if a < length s
      then (case s ! a of QuiverCellObject c t d i \<Rightarrow> c | _ \<Rightarrow> Val JUndefined)
      else Val JUndefined)"

definition quiverCell_at :: "store \<Rightarrow> addr \<Rightarrow> DataFrameCell" where
  "quiverCell_at s a =
     (if a < length s
      then (case s ! a of
              QuiverCellObject c t d i \<Rightarrow>
                \<lparr>content = deref s c, contentType = t, displayContent = d, cssId = i\<rparr>
            | _ \<Rightarrow> \<lparr>content = JUndefined, contentType = None, displayContent = None, cssId = None\<rparr>)
      else \<lparr>content = JUndefined, contentType = None, displayContent = None, cssId = None\<rparr>)"

text \<open>The two writes of the code: \<^verbatim>\<open>array.push(v)\<close> and \<^verbatim>\<open>object.k = v\<close>.\<close>

definition push :: "addr \<Rightarrow> jsnum \<Rightarrow> store \<Rightarrow> store" where
  "push a v s =
     (if a < length s
      then (case s ! a of NumberArray xs \<Rightarrow> s[a := NumberArray (xs @ [v])] | _ \<Rightarrow> s)
      else s)"

definition set_property :: "addr \<Rightarrow> string \<Rightarrow> jsval \<Rightarrow> store \<Rightarrow> store" where
  "set_property a k v s =
     (if a < length s
      then (case s ! a of CellObject c \<Rightarrow> s[a := CellObject (AList.update k v c)] | _ \<Rightarrow> s)
      else s)"

text \<open>Returning the one new object that an object literal or a spread builds.\<close>

definition new_cell :: "error + GridCell \<Rightarrow> store \<Rightarrow> (error + addr) \<times> store" where
  "new_cell r s =
     (case r of
        Inl e \<Rightarrow> (Inl e, s)
      | Inr c \<Rightarrow> (case alloc (CellObject c) s of (a, s') \<Rightarrow> (Inr a, s')))"

definition extractCssProperty_st ::
  "regex \<Rightarrow> store \<Rightarrow> string \<Rightarrow> string \<Rightarrow> string \<Rightarrow> (error + string option) \<times> store" where
  "extractCssProperty_st regex_exec s htmlElementId property cssStyle =
     (extractCssProperty regex_exec htmlElementId property cssStyle, s)"

definition applyPandasStylerCss_st ::
  "regex \<Rightarrow> store \<Rightarrow> addr \<Rightarrow> string \<Rightarrow> string \<Rightarrow> (error + addr) \<times> store" where
  "applyPandasStylerCss_st regex_exec s cell cssId' cssStyles' =
     (case alloc (CellObject []) s of (themeOverride, s1) \<Rightarrow>
        (case extractCssProperty_st regex_exec s1 cssId' ''color'' cssStyles' of
           (Inl e, s2) \<Rightarrow> (Inl e, s2)
         | (Inr fontColor, s2) \<Rightarrow>
             (let s3 = (case fontColor of
                          None \<Rightarrow> s2
                        | Some c \<Rightarrow>
                            if c \<noteq> [] then set_property themeOverride ''textDark'' (JStr c) s2
                            else s2)
              in case extractCssProperty_st regex_exec s3 cssId' ''background-color'' cssStyles' of
                   (Inl e, s4) \<Rightarrow> (Inl e, s4)
                 | (Inr backgroundColor, s4) \<Rightarrow>
                     (let s5 = (case backgroundColor of
                                  None \<Rightarrow> s4
                                | Some c \<Rightarrow>
                                    if c \<noteq> [] then set_property themeOverride ''bgCell'' (JStr c) s4
                                    else s4)
                      in new_cell
                           (Inr (spread (cell_at s5 cell)
                                   [(''themeOverride'', JObject (cell_at s5 themeOverride))]))
                           s5))))"

definition fillListCell_st :: "store \<Rightarrow> addr \<Rightarrow> ref \<Rightarrow> (error + addr) \<times> store" where
  "fillListCell_st s cell data = new_cell (fillListCell (cell_at s cell) (deref s data)) s"

definition fillUrlCell_st :: "store \<Rightarrow> addr \<Rightarrow> ref \<Rightarrow> (error + addr) \<times> store" where
  "fillUrlCell_st s cell data = new_cell (Inr (fillUrlCell (cell_at s cell) (deref s data))) s"

definition fillTextCell_st :: "store \<Rightarrow> addr \<Rightarrow> ref \<Rightarrow> string \<Rightarrow> (error + addr) \<times> store" where
  "fillTextCell_st s cell data displayData =
     new_cell (Inr (fillTextCell (cell_at s cell) (deref s data) displayData)) s"

definition fillBooleanCell_st :: "store \<Rightarrow> addr \<Rightarrow> ref \<Rightarrow> (error + addr) \<times> store" where
  "fillBooleanCell_st s cell data = new_cell (fillBooleanCell (cell_at s cell) (deref s data)) s"

definition fillNumberCell_st :: "store \<Rightarrow> addr \<Rightarrow> ref \<Rightarrow> string \<Rightarrow> (error + addr) \<times> store" where
  "fillNumberCell_st s cell data displayData =
     new_cell (fillNumberCell (cell_at s cell) (deref s data) displayData) s"

definition fillImageCell_st :: "store \<Rightarrow> addr \<Rightarrow> ref \<Rightarrow> (error + addr) \<times> store" where
  "fillImageCell_st s cell data = new_cell (Inr (fillImageCell (cell_at s cell) (deref s data))) s"

definition fillProgressCell_st :: "store \<Rightarrow> addr \<Rightarrow> ref \<Rightarrow> (error + addr) \<times> store" where
  "fillProgressCell_st s cell data = new_cell (fillProgressCell (cell_at s cell) (deref s data)) s"

text \<open>
  \<^verbatim>\<open>fillChartCell\<close> with its arrays in the store: \<^verbatim>\<open>chartData\<close> is the array of the table itself
  or what \<^verbatim>\<open>toArray()\<close> gives, and is only read; \<^verbatim>\<open>convertedChartData\<close> and the first
  \<^verbatim>\<open>normalizedChartData\<close> are new arrays; the callback pushes onto \<^verbatim>\<open>convertedChartData\<close>;
  \<^verbatim>\<open>map\<close> builds a new array, and without normalising \<^verbatim>\<open>normalizedChartData\<close> becomes another
  name for \<^verbatim>\<open>convertedChartData\<close>.
\<close>

definition chart_step_st :: "addr \<Rightarrow> jsval \<Rightarrow> jsnum \<times> jsnum \<times> store \<Rightarrow> jsnum \<times> jsnum \<times> store" where
  "chart_step_st convertedChartData v st =
     (case st of (maxValue, minValue, s) \<Rightarrow>
        (let convertedValue = Number_js v;
             maxValue' = (if fgt convertedValue maxValue then convertedValue else maxValue);
             minValue' = (if flt convertedValue minValue then convertedValue else minValue)
         in if isNaN convertedValue then (maxValue', minValue', s)
            else (maxValue', minValue', push convertedChartData convertedValue s)))"

definition fillChartCell_st :: "store \<Rightarrow> addr \<Rightarrow> ref \<Rightarrow> (error + addr) \<times> store" where
  "fillChartCell_st s cell data =
     (if \<not> notNullOrUndefined (deref s data) then new_cell (Inr getEmptyCell) s
      else
        (case (case deref s data of
                 JArray xs \<Rightarrow> Some xs
               | JHost (Some xs) p st n j \<Rightarrow> Some xs
               | _ \<Rightarrow> None) of
           None \<Rightarrow>
             new_cell (getErrorCell (''Incompatible chart value: '' @ String_js (deref s data))
                         ''The provided value is not an array.'') s
         | Some chartData \<Rightarrow>
             (case alloc (NumberArray []) s of (convertedChartData, s1) \<Rightarrow>
              case alloc (NumberArray []) s1 of (normalizedChartData0, s2) \<Rightarrow>
              case (if 1 \<le> length chartData then
                      (case fold (chart_step_st convertedChartData) chartData
                              (Number_js (hd chartData), Number_js (hd chartData), s2) of
                         (maxValue, minValue, s3) \<Rightarrow>
                           if fgt maxValue num_1 \<or> flt minValue num_0
                           then alloc (NumberArray
                                         (map (\<lambda>v. fdiv (fsub v minValue) (fsub maxValue minValue))
                                            (numbers_at s3 convertedChartData))) s3
                           else (convertedChartData, s3))
                    else (normalizedChartData0, s2)) of
                (normalizedChartData, s4) \<Rightarrow>
                  new_cell
                    (Inr (spread (cell_at s4 cell)
                            [(''copyData'',
                              JStr (json_stringify_numbers (numbers_at s4 convertedChartData))),
                             (''data'',
                              JObject (spread (own_props (get_prop (cell_at s4 cell) ''data''))
                                         [(''values'',
                                           JArray (map JNum (numbers_at s4 normalizedChartData))),
                                          (''displayValues'',
                                           JArray (map JNum (numbers_at s4 convertedChartData)))]))]))
                    s4)))"

definition fillCellTemplate_st ::
  "regex \<Rightarrow> (jsval \<Rightarrow> QuiverType option \<Rightarrow> string) \<Rightarrow> store \<Rightarrow> addr \<Rightarrow> addr \<Rightarrow> string option
     \<Rightarrow> (error + addr) \<times> store" where
  "fillCellTemplate_st regex_exec format s cellTemplate0 quiverCell cssStyles' =
     (let cellKind = cellKind_of (cell_at s cellTemplate0)
      in if \<not> truthy cellKind then new_cell (getErrorCell ''Unable to determine cell type.'' []) s
         else
           (case (case (cssStyles', cssId (quiverCell_at s quiverCell)) of
                    (Some css, Some cid) \<Rightarrow>
                      if css \<noteq> [] \<and> cid \<noteq> []
                      then applyPandasStylerCss_st regex_exec s cellTemplate0 cid css
                      else (Inr cellTemplate0, s)
                  | _ \<Rightarrow> (Inr cellTemplate0, s)) of
              (Inl e, s1) \<Rightarrow> (Inl e, s1)
            | (Inr cellTemplate, s1) \<Rightarrow>
                if cellKind = JStr GridCellKind_Text then
                  fillTextCell_st s1 cellTemplate (content_ref_at s1 quiverCell)
                    (getDisplayContent format (quiverCell_at s1 quiverCell))
                else if cellKind = JStr GridCellKind_Number then
                  fillNumberCell_st s1 cellTemplate (content_ref_at s1 quiverCell)
                    (getDisplayContent format (quiverCell_at s1 quiverCell))
                else if cellKind = JStr GridCellKind_Boolean then
                  fillBooleanCell_st s1 cellTemplate (content_ref_at s1 quiverCell)
                else if cellKind = JStr GridCellKind_Bubble then
                  fillListCell_st s1 cellTemplate (content_ref_at s1 quiverCell)
                else if cellKind = JStr GridCellKind_Uri then
                  fillUrlCell_st s1 cellTemplate (content_ref_at s1 quiverCell)
                else if cellKind = JStr GridCellKind_Image then
                  fillImageCell_st s1 cellTemplate (content_ref_at s1 quiverCell)
                else if cellKind = JStr ''sparkline-cell'' then
                  fillChartCell_st s1 cellTemplate (content_ref_at s1 quiverCell)
                else if cellKind = JStr ''range-cell'' then
                  fillProgressCell_st s1 cellTemplate (content_ref_at s1 quiverCell)
                else new_cell (getErrorCell (''Unsupported cell kind: '' @ String_js cellKind) []) s1))"

text \<open>
  A call that starts in the store \<open>s\<close> leaves every object of \<open>s\<close> as it was, and what it
  returns is a new object.
\<close>

definition extends_store :: "store \<Rightarrow> (error + addr) \<times> store \<Rightarrow> bool" where
  "extends_store s out =
     (case out of (r, s') \<Rightarrow>
        length s \<le> length s' \<and> take (length s) s' = s
        \<and> (case r of Inl e \<Rightarrow> True | Inr a \<Rightarrow> length s \<le> a \<and> a < length s'))"

text \<open>The cell that a call over the store returns, read from the store it leaves.\<close>

definition returned_cell :: "(error + addr) \<times> store \<Rightarrow> error + GridCell" where
  "returned_cell out = (case out of (r, s') \<Rightarrow> (case r of Inl e \<Rightarrow> Inl e | Inr a \<Rightarrow> Inr (cell_at s' a)))"

text \<open>A store with the cell of a table, the array it holds, and a line chart template.\<close>

definition example_store :: store where
  "example_store =
     [TableObject (JArray [JNum num_1, JNum num_5]),
      QuiverCellObject (Ref 0) None None None,
      CellObject (template_of ColumnType_LineChart)]"

text \<open>Example arguments of an edit: the cell at column 0 and row 0 is given the number 5.\<close>

definition example_isEditableGridCell :: "GridCell \<Rightarrow> bool" where
  "example_isEditableGridCell cell =
     (get_prop cell ''kind'' \<notin> set [JStr GridCellKind_Loading, JStr GridCellKind_Bubble,
                                      JStr GridCellKind_RowID, JStr GridCellKind_Protected,
                                      JStr GridCellKind_Drilldown])"

definition example_getOriginalIndex :: "jsnum \<Rightarrow> jsnum" where
  "example_getOriginalIndex r = r"

definition example_new_value :: GridCell where
  "example_new_value = [(''kind'', JStr GridCellKind_Number), (''data'', JNum num_5)]"

definition example_updated_cell :: GridCell where
  "example_updated_cell =
     [(''kind'', JStr GridCellKind_Number), (''data'', JNum num_5), (''displayData'', JStr ''5''),
      (''lastUpdated'', JNum num_100)]"

section \<open>Facts about the runtime model\<close>

lemma valof_consts:
  "valof num_0 = 0" "valof num_1 = 1" "valof num_35 = 35" "valof num_100 = 100" "valof num_600 = 600"
  "valof num_2 = 2" "valof num_half = 1/2" "valof num_5 = 5"
  by (simp_all add: valof_def pow2_def num_0_def num_1_def num_35_def num_100_def num_600_def num_2_def num_half_def num_5_def)

lemma notNaN_consts:
  "\<not> isNaN num_0" "\<not> isNaN num_1" "\<not> isNaN num_35" "\<not> isNaN num_100" "\<not> isNaN num_600"
  "\<not> isNaN num_2" "\<not> isNaN num_half" "\<not> isNaN num_5"
  by (simp_all add: isNaN_def num_0_def num_1_def num_35_def num_100_def num_600_def num_2_def num_half_def num_5_def)

lemma isNaN_NaN: "isNaN NaN"
  by (simp add: isNaN_def NaN_def)

lemma getCellTemplate_Text:
  "getCellTemplate ColumnType_Text ro ix =
     Inr [(''kind'', JStr GridCellKind_Text), (''data'', JStr []), (''displayData'', JStr []),
          (''allowOverlay'', JBool True), (''readonly'', JBool ro),
          (''style'', JStr (if ix then ''faded'' else ''normal''))]"
  by (simp add: getCellTemplate_def)

lemma getErrorCell_eq:
  "getErrorCell m d =
     Inr [(''kind'', JStr GridCellKind_Text),
          (''data'', JStr (m @ (if d \<noteq> [] then CHR 0x0A # d else []))),
          (''displayData'', JStr m),
          (''allowOverlay'', JBool True), (''readonly'', JBool True),
          (''style'', JStr ''normal''),
          (''themeOverride'', JObject [(''textDark'', JStr ''#ff4b4b'')])]"
  by (simp add: getErrorCell_def getCellTemplate_Text spread_def)

lemma get_prop_update:
  "get_prop (AList.update k v obj) k' = (if k' = k then v else get_prop obj k')"
  by (simp add: get_prop_def update_conv')

lemma spread_Nil: "spread obj [] = obj"
  by (simp add: spread_def)

lemma spread_Cons: "spread obj ((k, v) # kvs) = spread (AList.update k v obj) kvs"
  by (simp add: spread_def)

lemma get_prop_spread1:
  "get_prop (spread obj [(k, v)]) k' = (if k' = k then v else get_prop obj k')"
  by (simp add: spread_Cons spread_Nil get_prop_update)

lemma get_prop_spread2:
  "get_prop (spread obj [(k1, v1), (k2, v2)]) k' =
     (if k' = k2 then v2 else if k' = k1 then v1 else get_prop obj k')"
  by (simp add: spread_Cons spread_Nil get_prop_update)

lemma isErrorCell_getErrorCell: "getErrorCell m d = Inr c \<Longrightarrow> isErrorCell c"
  by (auto simp add: getErrorCell_eq isErrorCell_def get_prop_def)

lemma isErrorCell_iff: "isErrorCell c \<longleftrightarrow> (\<exists>m d. getErrorCell m d = Inr c)"
proof
  assume "isErrorCell c"
  then show "\<exists>m d. getErrorCell m d = Inr c"
    unfolding isErrorCell_def by (auto split: jsval.splits)
next
  assume "\<exists>m d. getErrorCell m d = Inr c"
  then show "isErrorCell c"
    using isErrorCell_getErrorCell by blast
qed

lemma is_error_result_getErrorCell: "is_error_result (getErrorCell m d)"
  using isErrorCell_getErrorCell [of m d] by (simp add: is_error_result_def getErrorCell_eq)

lemma result_message_getErrorCell: "result_message (getErrorCell m d) = m"
  by (simp add: result_message_def getErrorCell_eq errorMessage_def get_prop_def)

lemma isErrorCell_data_string: "isErrorCell c \<Longrightarrow> \<exists>s. get_prop c ''data'' = JStr s"
  unfolding isErrorCell_def by (auto split: jsval.splits)

section \<open>Boolean cells\<close>

lemma not_error_if_data_not_string:
  "(\<And>s. get_prop c ''data'' \<noteq> JStr s) \<Longrightarrow> \<not> isErrorCell c"
  using isErrorCell_data_string by blast

lemma typeof_boolean_iff: "typeof v = ''boolean'' \<longleftrightarrow> (\<exists>b. v = JBool b)"
  by (cases v) auto

text \<open>
  Claim C3, as amended. For every raw value passed to \<^verbatim>\<open>fillBooleanCell\<close>: a boolean value, and
  also \<^verbatim>\<open>null\<close> and \<^verbatim>\<open>undefined\<close>, yield the given cell with its kind unchanged and that value
  as its data, which is not an error cell; every other value yields an error cell. So the
  result is an error cell if and only if the value is neither \<^verbatim>\<open>null\<close>, \<^verbatim>\<open>undefined\<close> nor a
  boolean.
\<close>

theorem fillBooleanCell_error_iff:
  "(typeof v = ''boolean'' \<or> \<not> notNullOrUndefined v \<longrightarrow>
      fillBooleanCell cell v = Inr (spread cell [(''data'', v)])
      \<and> get_prop (spread cell [(''data'', v)]) ''kind'' = get_prop cell ''kind''
      \<and> get_prop (spread cell [(''data'', v)]) ''data'' = v)
   \<and> (is_error_result (fillBooleanCell cell v) \<longleftrightarrow> notNullOrUndefined v \<and> typeof v \<noteq> ''boolean'')"
proof -
  have plain: "\<not> isErrorCell (spread cell [(''data'', v)])"
    if "typeof v = ''boolean'' \<or> \<not> notNullOrUndefined v"
  proof (rule not_error_if_data_not_string)
    fix s
    from that have "v \<noteq> JStr s"
      by (auto simp add: notNullOrUndefined_def)
    then show "get_prop (spread cell [(''data'', v)]) ''data'' \<noteq> JStr s"
      by (simp add: get_prop_spread1)
  qed
  show ?thesis
  proof (cases "notNullOrUndefined v \<and> typeof v \<noteq> ''boolean''")
    case True
    then show ?thesis
      by (simp add: fillBooleanCell_def is_error_result_getErrorCell)
  next
    case False
    then have *: "typeof v = ''boolean'' \<or> \<not> notNullOrUndefined v" by blast
    with False plain show ?thesis
      by (auto simp add: fillBooleanCell_def is_error_result_def get_prop_spread1)
  qed
qed

theorem fillBooleanCell_error_iff_witness:
  "typeof (JBool True) = ''boolean''
   \<and> fillBooleanCell (template_of ColumnType_Boolean) (JBool True)
       = Inr [(''kind'', JStr ''boolean''), (''data'', JBool True), (''readonly'', JBool False),
              (''allowOverlay'', JBool False), (''style'', JStr ''normal'')]
   \<and> \<not> is_error_result (fillBooleanCell (template_of ColumnType_Boolean) (JBool True))
   \<and> is_error_result (fillBooleanCell (template_of ColumnType_Boolean) (JStr ''yes''))"
proof -
  have t: "template_of ColumnType_Boolean
             = [(''kind'', JStr ''boolean''), (''data'', JBool False), (''readonly'', JBool False),
                (''allowOverlay'', JBool False), (''style'', JStr ''normal'')]"
    by (simp add: template_of_def getCellTemplate_def ColumnType_Boolean_def ColumnType_Text_def
        GridCellKind_Boolean_def)
  note yes = fillBooleanCell_error_iff [of "JBool True" "template_of ColumnType_Boolean"]
  note no = fillBooleanCell_error_iff [of "JStr ''yes''" "template_of ColumnType_Boolean"]
  have 1: "fillBooleanCell (template_of ColumnType_Boolean) (JBool True)
             = Inr (spread (template_of ColumnType_Boolean) [(''data'', JBool True)])"
    using yes [THEN conjunct1] by simp
  have 2: "\<not> is_error_result (fillBooleanCell (template_of ColumnType_Boolean) (JBool True))"
    using yes [THEN conjunct2] by simp
  have 3: "is_error_result (fillBooleanCell (template_of ColumnType_Boolean) (JStr ''yes''))"
    using no [THEN conjunct2] by (simp add: notNullOrUndefined_def)
  have 4: "spread (template_of ColumnType_Boolean) [(''data'', JBool True)]
             = [(''kind'', JStr ''boolean''), (''data'', JBool True), (''readonly'', JBool False),
                (''allowOverlay'', JBool False), (''style'', JStr ''normal'')]"
    by (simp add: t spread_def)
  show ?thesis
    using 1 2 3 4 by simp
qed

text \<open>
  Claim C3 as stated fails at \<^verbatim>\<open>null\<close>: it is not a boolean, and the boolean template filled
  with it is not an error cell.
\<close>

theorem fillBooleanCell_null_counterexample:
  "\<not> (is_error_result (fillBooleanCell (template_of ColumnType_Boolean) JNull)
        \<longleftrightarrow> typeof JNull \<noteq> ''boolean'')
   \<and> typeof JNull \<noteq> ''boolean''
   \<and> \<not> is_error_result (fillBooleanCell (template_of ColumnType_Boolean) JNull)
   \<and> fillBooleanCell (template_of ColumnType_Boolean) JNull
       = Inr [(''kind'', JStr ''boolean''), (''data'', JNull), (''readonly'', JBool False),
              (''allowOverlay'', JBool False), (''style'', JStr ''normal'')]"
  by (simp add: fillBooleanCell_def notNullOrUndefined_def template_of_def getCellTemplate_def
      spread_def ColumnType_Boolean_def ColumnType_Text_def GridCellKind_Boolean_def
      is_error_result_def isErrorCell_def get_prop_def)

section \<open>Progress cells\<close>

lemma flt_valof: "\<not> isNaN a \<Longrightarrow> \<not> isNaN b \<Longrightarrow> flt a b \<longleftrightarrow> valof a < valof b"
  by (simp add: flt_def)

lemma fgt_valof: "\<not> isNaN a \<Longrightarrow> \<not> isNaN b \<Longrightarrow> fgt a b \<longleftrightarrow> valof b < valof a"
  by (simp add: fgt_def flt_def)

text \<open>
  Claim C1, as amended. For every raw value that is not \<^verbatim>\<open>null\<close> or \<^verbatim>\<open>undefined\<close> and whose
  numeric conversion \<open>n\<close> is not NaN: when \<open>n\<close> lies in the interval from 0 to 1,
  \<^verbatim>\<open>fillProgressCell\<close> returns the given cell with \<open>n\<close> itself as the value of its data and
  with the label made of \<open>n\<close> times 100, rounded, followed by a percent sign; when \<open>n\<close> lies
  outside the interval it returns an error cell with the message
  \<^verbatim>\<open>Incompatible progress value\<close>. Nothing is clamped.
\<close>

theorem fillProgressCell_range_or_error:
  assumes "notNullOrUndefined v" and "\<not> isNaN (Number_js v)"
  shows "(0 \<le> valof (Number_js v) \<and> valof (Number_js v) \<le> 1 \<longrightarrow>
            fillProgressCell cell v =
              Inr (spread cell
                     [(''copyData'', JStr (String_js v)),
                      (''data'',
                       JObject (spread (own_props (get_prop cell ''data''))
                                  [(''value'', JNum (Number_js v)),
                                   (''label'',
                                    JStr (Number_toString (Math_round (fmul (Number_js v) num_100))
                                          @ ''%''))]))]))
         \<and> (valof (Number_js v) < 0 \<or> 1 < valof (Number_js v) \<longrightarrow>
              is_error_result (fillProgressCell cell v)
              \<and> result_message (fillProgressCell cell v)
                  = ''Incompatible progress value: '' @ String_js v)"
  using assms
  by (simp add: fillProgressCell_def flt_valof fgt_valof notNaN_consts valof_consts
      is_error_result_getErrorCell result_message_getErrorCell Let_def not_less)

lemma label_half: "Number_toString (Math_round (fmul num_half num_100)) = ''50''"
  by code_simp

theorem fillProgressCell_range_or_error_witness:
  "notNullOrUndefined (JNum num_half) \<and> \<not> isNaN (Number_js (JNum num_half))
   \<and> 0 \<le> valof (Number_js (JNum num_half)) \<and> valof (Number_js (JNum num_half)) \<le> 1
   \<and> fillProgressCell (template_of ColumnType_ProgressChart) (JNum num_half) =
       Inr (spread (template_of ColumnType_ProgressChart)
              [(''copyData'', JStr (String_js (JNum num_half))),
               (''data'',
                JObject (spread (own_props (get_prop (template_of ColumnType_ProgressChart) ''data''))
                           [(''value'', JNum num_half), (''label'', JStr ''50%'')]))])"
proof -
  have h1: "notNullOrUndefined (JNum num_half)"
    by (simp add: notNullOrUndefined_def)
  have h2: "\<not> isNaN (Number_js (JNum num_half))"
    by (simp add: notNaN_consts)
  have h3: "0 \<le> valof (Number_js (JNum num_half)) \<and> valof (Number_js (JNum num_half)) \<le> 1"
    by (simp add: valof_consts)
  show ?thesis
    using fillProgressCell_range_or_error [OF h1 h2, of "template_of ColumnType_ProgressChart",
        THEN conjunct1] h1 h2 h3 label_half
    by simp
qed

text \<open>
  Claim C1 as stated fails at the number 2: the cell returned for the progress template is
  an error cell, and it carries neither the clamped value 1 nor a label made from it.
\<close>

theorem fillProgressCell_clamp_counterexample:
  "notNullOrUndefined (JNum num_2) \<and> \<not> isNaN (Number_js (JNum num_2))
   \<and> \<not> progress_clamped (template_of ColumnType_ProgressChart) (JNum num_2)
   \<and> is_error_result (fillProgressCell (template_of ColumnType_ProgressChart) (JNum num_2))"
proof -
  have e: "fillProgressCell (template_of ColumnType_ProgressChart) (JNum num_2)
             = getErrorCell (''Incompatible progress value: '' @ String_js (JNum num_2))
                 ''The value has to be between 0 and 1.''"
    by (simp add: fillProgressCell_def notNullOrUndefined_def notNaN_consts fgt_valof flt_valof
        valof_consts)
  have "\<not> progress_clamped (template_of ColumnType_ProgressChart) (JNum num_2)"
    unfolding progress_clamped_def e
    by (simp add: getErrorCell_eq get_prop_def)
  then show ?thesis
    by (simp add: e is_error_result_getErrorCell notNullOrUndefined_def notNaN_consts)
qed

section \<open>Chart cells\<close>

lemma isNaN_fneg: "isNaN (fneg c) = isNaN c"
  by (simp add: isNaN_def fneg_def)

lemma isInf_fneg: "isInf (fneg c) = isInf c"
  by (simp add: isInf_def fneg_def)

lemma valof_fneg: "valof (fneg c) = - valof c"
  by (simp add: valof_def fneg_def Let_def algebra_simps)

lemma fsub_self: "\<not> isNaN c \<Longrightarrow> fsub c c = (if isInf c then NaN else zero False)"
  by (simp add: fsub_def fadd_def isNaN_fneg isInf_fneg valof_fneg) (simp add: fneg_def)

lemma fdiv_zero_zero: "fdiv (zero False) (zero False) = NaN"
  by (simp add: fdiv_def isNaN_def isInf_def isZero_def zero_def)

lemma fdiv_NaN: "fdiv NaN b = NaN"
  by (simp add: fdiv_def isNaN_NaN)

lemma fdiv_fsub_self: "\<not> isNaN c \<Longrightarrow> fdiv (fsub c c) (fsub c c) = NaN"
  by (simp add: fsub_self fdiv_zero_zero fdiv_NaN)

lemma chart_step_same:
  "\<not> isNaN c \<Longrightarrow> chart_step (JNum c) (c, c, acc) = (c, c, acc @ [c])"
  by (simp add: chart_step_def fgt_def flt_def)

lemma fold_chart_step_replicate:
  "\<not> isNaN c \<Longrightarrow>
     fold chart_step (replicate n (JNum c)) (c, c, acc) = (c, c, acc @ replicate n c)"
proof (induction n arbitrary: acc)
  case 0
  then show ?case by simp
next
  case (Suc n)
  then show ?case
    by (simp add: chart_step_same replicate_app_Cons_same)
qed

text \<open>
  Claim C10. The divisor \<^verbatim>\<open>maxValue - minValue\<close> of the normalisation is not guarded against
  zero: for every non-empty array of one and the same number \<open>c\<close>, with \<open>c\<close> greater than 1
  or less than 0, \<^verbatim>\<open>fillChartCell\<close> takes the normalising branch and every value it returns
  is NaN, the quotient of \<open>c - c\<close> by \<open>c - c\<close>; the display values are the numbers
  themselves.
\<close>

theorem fillChartCell_constant_array_NaN:
  assumes "0 < n" and "fgt c num_1 \<or> flt c num_0"
  shows "fillChartCell cell (JArray (replicate n (JNum c))) =
           Inr (spread cell
                  [(''copyData'', JStr (json_stringify_numbers (replicate n c))),
                   (''data'',
                    JObject (spread (own_props (get_prop cell ''data''))
                               [(''values'', JArray (replicate n (JNum NaN))),
                                (''displayValues'', JArray (replicate n (JNum c)))]))])
         \<and> isNaN NaN"
proof -
  from assms(2) have c: "\<not> isNaN c"
    by (auto simp add: fgt_def flt_def)
  from assms(1) have hd: "hd (replicate n (JNum c)) = JNum c"
    by (cases n) simp_all
  have fold: "fold chart_step (replicate n (JNum c)) (c, c, []) = (c, c, replicate n c)"
    using fold_chart_step_replicate [OF c, of n "[]"] by simp
  have norm: "map (\<lambda>v. fdiv (fsub v c) (fsub c c)) (replicate n c) = replicate n NaN"
    by (simp add: fdiv_fsub_self [OF c])
  show ?thesis
    using assms
    by (simp add: fillChartCell_def notNullOrUndefined_def hd fold norm isNaN_NaN Suc_le_eq
        fdiv_fsub_self [OF c] del: fold_replicate)
qed

theorem fillChartCell_constant_array_NaN_witness:
  "(0::nat) < 2 \<and> (fgt num_35 num_1 \<or> flt num_35 num_0)
   \<and> fillChartCell (template_of ColumnType_LineChart) (JArray [JNum num_35, JNum num_35]) =
       Inr (spread (template_of ColumnType_LineChart)
              [(''copyData'', JStr (json_stringify_numbers [num_35, num_35])),
               (''data'',
                JObject (spread (own_props (get_prop (template_of ColumnType_LineChart) ''data''))
                           [(''values'', JArray [JNum NaN, JNum NaN]),
                            (''displayValues'', JArray [JNum num_35, JNum num_35])]))])"
proof -
  have h1: "(0::nat) < 2" by simp
  have h2: "fgt num_35 num_1 \<or> flt num_35 num_0"
    by (simp add: fgt_valof notNaN_consts valof_consts)
  have r: "replicate 2 x = [x, x]" for x :: 'a
    by (simp add: numeral_2_eq_2)
  show ?thesis
    using fillChartCell_constant_array_NaN [OF h1 h2, of "template_of ColumnType_LineChart"] h2
    by (simp add: r)
qed

text \<open>A value that is neither an array nor a \<^verbatim>\<open>Vector\<close> yields an error cell.\<close>

lemma fillChartCell_not_array_error:
  assumes "notNullOrUndefined v" and "\<not> isArray v" and "\<forall>xs p s n j. v \<noteq> JHost (Some xs) p s n j"
  shows "is_error_result (fillChartCell cell v)
         \<and> result_message (fillChartCell cell v) = ''Incompatible chart value: '' @ String_js v"
proof -
  have "(case v of JArray xs \<Rightarrow> Some xs | JHost (Some xs) p s n j \<Rightarrow> Some xs | _ \<Rightarrow> None) = None"
    using assms(2,3) by (cases v) (auto simp add: isArray_def split: option.splits)
  with assms(1) show ?thesis
    by (simp add: fillChartCell_def is_error_result_getErrorCell result_message_getErrorCell)
qed

text \<open>An array never yields an error cell, whatever its elements.\<close>

lemma fillChartCell_array_not_error:
  "\<not> is_error_result (fillChartCell cell (JArray xs))"
proof -
  have "\<exists>a b. fillChartCell cell (JArray xs)
          = Inr (spread cell [(''copyData'', a), (''data'', JObject b)])"
    by (auto simp add: fillChartCell_def notNullOrUndefined_def Let_def split: prod.splits)
  then obtain a b where
    e: "fillChartCell cell (JArray xs) = Inr (spread cell [(''copyData'', a), (''data'', JObject b)])"
    by blast
  have "\<not> isErrorCell (spread cell [(''copyData'', a), (''data'', JObject b)])"
    by (rule not_error_if_data_not_string) (simp add: get_prop_spread2)
  then show ?thesis
    by (simp add: e is_error_result_def)
qed



lemma template_of_LineChart:
  "template_of ColumnType_LineChart =
     [(''kind'', JStr ''custom''), (''allowOverlay'', JBool False), (''copyData'', JStr ''[]''),
      (''data'', JObject [(''kind'', JStr ''sparkline-cell''), (''values'', JArray []),
                          (''displayValues'', JArray []), (''graphKind'', JStr ''line''),
                          (''yAxis'', JArray [JNum num_0, JNum num_1])])]"
  by (simp add: template_of_def getCellTemplate_def ColumnType_LineChart_def ColumnType_Text_def
      ColumnType_Boolean_def ColumnType_Number_def ColumnType_List_def ColumnType_Url_def
      ColumnType_Image_def GridCellKind_Custom_def)

lemma json_stringify_one: "json_stringify_numbers [num_1] = ''[1]''"
  by code_simp

text \<open>
  Claim C2 asks for an error cell when an element of the array converts to NaN. The code
  at the array \<^verbatim>\<open>[1, undefined]\<close>: the conversion of \<^verbatim>\<open>undefined\<close> is NaN, and the cell
  returned for the line chart template is the chart cell of the array \<^verbatim>\<open>[1]\<close>, not an error
  cell.
\<close>

theorem fillChartCell_NaN_element_no_error:
  "isNaN (Number_js JUndefined)
   \<and> fillChartCell (template_of ColumnType_LineChart) (JArray [JNum num_1, JUndefined]) =
       Inr [(''kind'', JStr ''custom''), (''allowOverlay'', JBool False),
            (''copyData'', JStr ''[1]''),
            (''data'',
             JObject [(''kind'', JStr ''sparkline-cell''), (''values'', JArray [JNum num_1]),
                      (''displayValues'', JArray [JNum num_1]), (''graphKind'', JStr ''line''),
                      (''yAxis'', JArray [JNum num_0, JNum num_1])])]
   \<and> \<not> is_error_result
         (fillChartCell (template_of ColumnType_LineChart) (JArray [JNum num_1, JUndefined]))"
proof -
  have loop: "chart_step JUndefined (chart_step (JNum num_1) (num_1, num_1, []))
                = (num_1, num_1, [num_1])"
    by (simp add: chart_step_def fgt_def flt_def isNaN_NaN notNaN_consts)
  have "fillChartCell (template_of ColumnType_LineChart) (JArray [JNum num_1, JUndefined]) =
       Inr [(''kind'', JStr ''custom''), (''allowOverlay'', JBool False),
            (''copyData'', JStr ''[1]''),
            (''data'',
             JObject [(''kind'', JStr ''sparkline-cell''), (''values'', JArray [JNum num_1]),
                      (''displayValues'', JArray [JNum num_1]), (''graphKind'', JStr ''line''),
                      (''yAxis'', JArray [JNum num_0, JNum num_1])])]"
    by (simp add: fillChartCell_def notNullOrUndefined_def loop fgt_def flt_def notNaN_consts
        valof_consts json_stringify_one template_of_LineChart spread_def get_prop_def)
  then show ?thesis
    using fillChartCell_array_not_error [of "template_of ColumnType_LineChart" "[JNum num_1, JUndefined]"]
    by (simp add: isNaN_NaN)
qed

section \<open>Column configuration\<close>

lemma Math_min_35: "\<not> isNaN w \<Longrightarrow>
  \<not> isNaN (Math_min w num_35) \<and> valof (Math_min w num_35) \<le> 35"
  by (auto simp add: Math_min_def notNaN_consts valof_consts)

lemma Math_max_600: "\<not> isNaN x \<Longrightarrow> valof x \<le> 35 \<Longrightarrow> Math_max x num_600 = num_600"
  by (auto simp add: Math_max_def notNaN_consts valof_consts)

lemma width_never_honoured:
  "\<not> isNaN w \<Longrightarrow> Math_max (Math_min w MIN_COLUMN_WIDTH) MAX_COLUMN_WIDTH = MAX_COLUMN_WIDTH"
  using Math_min_35 [of w] Math_max_600 [of "Math_min w num_35"]
  by (simp add: MIN_COLUMN_WIDTH_def MAX_COLUMN_WIDTH_def)

text \<open>A width that is NaN stays NaN: \<^verbatim>\<open>Math.min\<close> and \<^verbatim>\<open>Math.max\<close> propagate it.\<close>

lemma width_NaN:
  "isNaN w \<Longrightarrow> isNaN (Math_max (Math_min w MIN_COLUMN_WIDTH) MAX_COLUMN_WIDTH)"
  by (simp add: Math_max_def Math_min_def isNaN_NaN)

text \<open>
  Claim C9. For every column for which \<^verbatim>\<open>applyColumnConfig\<close> finds a configuration that does
  not hide it and that specifies a width \<open>w\<close>, \<open>w\<close> being any number (not NaN), the column
  returned has the width \<^verbatim>\<open>MAX_COLUMN_WIDTH\<close>, which is 600, whatever \<open>w\<close> is: the code
  takes the maximum of \<^verbatim>\<open>MAX_COLUMN_WIDTH\<close> and the minimum of \<open>w\<close> and \<^verbatim>\<open>MIN_COLUMN_WIDTH\<close>,
  which is 35.
\<close>

theorem applyColumnConfig_width_is_max:
  assumes "column_config column cfgs = Some cc"
    and "cfg_hide cc \<noteq> Some True"
    and "cfg_width cc = Some w"
    and "\<not> isNaN w"
  shows "map_option width (applyColumnConfig column (Some cfgs)) = Some (Some MAX_COLUMN_WIDTH)
         \<and> valof MAX_COLUMN_WIDTH = 600 \<and> valof MIN_COLUMN_WIDTH = 35"
proof -
  have "map_option width (applyColumnConfig column (Some cfgs)) = Some (Some MAX_COLUMN_WIDTH)"
    unfolding applyColumnConfig_def
    apply (fold column_config_def)
    using assms
    by (simp add: width_never_honoured Let_def split: option.splits)
  then show ?thesis
    by (simp add: MAX_COLUMN_WIDTH_def MIN_COLUMN_WIDTH_def valof_consts)
qed

theorem applyColumnConfig_width_is_max_witness:
  "column_config example_column [(KStr ''a'', example_config)] = Some example_config
   \<and> cfg_hide example_config \<noteq> Some True
   \<and> cfg_width example_config = Some num_100
   \<and> \<not> isNaN num_100
   \<and> map_option width (applyColumnConfig example_column (Some [(KStr ''a'', example_config)]))
       = Some (Some num_600)"
proof -
  have h1: "column_config example_column [(KStr ''a'', example_config)] = Some example_config"
    by (simp add: column_config_def Map_has_def example_column_def)
  have h2: "cfg_hide example_config \<noteq> Some True"
    by (simp add: example_config_def)
  have h3: "cfg_width example_config = Some num_100"
    by (simp add: example_config_def)
  have h4: "\<not> isNaN num_100"
    by (simp add: notNaN_consts)
  show ?thesis
    using applyColumnConfig_width_is_max [OF h1 h2 h3 h4] h1 h2 h3 h4
    by (simp add: MAX_COLUMN_WIDTH_def)
qed

section \<open>Column type inference\<close>

lemmas ColumnType_defs =
  ColumnType_Text_def ColumnType_Number_def ColumnType_Boolean_def ColumnType_List_def
  ColumnType_Url_def ColumnType_Image_def ColumnType_BarChart_def ColumnType_LineChart_def
  ColumnType_ProgressChart_def

lemmas GridCellKind_defs =
  GridCellKind_Uri_def GridCellKind_Text_def GridCellKind_Image_def GridCellKind_RowID_def
  GridCellKind_Number_def GridCellKind_Bubble_def GridCellKind_Boolean_def
  GridCellKind_Loading_def GridCellKind_Markdown_def GridCellKind_Drilldown_def
  GridCellKind_Protected_def GridCellKind_Custom_def

text \<open>
  Claim C7. Type inference always lands in the closed set of the nine column types.
  \<^verbatim>\<open>getColumnTypeFromQuiver\<close> maps the type name, lowercased and trimmed: \<^verbatim>\<open>bool\<close> to Boolean;
  \<^verbatim>\<open>int64\<close>, \<^verbatim>\<open>float64\<close> and \<^verbatim>\<open>range\<close> to Number; a name that starts with \<^verbatim>\<open>list\<close> to List; every
  other name (so \<^verbatim>\<open>unicode\<close>, \<^verbatim>\<open>date\<close>, \<^verbatim>\<open>datetime\<close> and \<^verbatim>\<open>datetimetz\<close>) and a missing name to
  Text. \<^verbatim>\<open>getColumnTypeFromConfig\<close> maps a string that, lowercased and trimmed, is a value
  of \<^verbatim>\<open>ColumnType\<close> to that value, and every other, empty or missing string to Text.
\<close>

theorem column_type_inference:
  "getColumnTypeFromQuiver getTypeName t =
     (case getTypeName t of
        None \<Rightarrow> ColumnType_Text
      | Some n \<Rightarrow>
          if trim (toLowerCase n) = ''bool'' then ColumnType_Boolean
          else if trim (toLowerCase n) \<in> {''int64'', ''float64'', ''range''} then ColumnType_Number
          else if startsWith (trim (toLowerCase n)) ''list'' then ColumnType_List
          else ColumnType_Text)
   \<and> getColumnTypeFromConfig c =
     (case c of
        None \<Rightarrow> ColumnType_Text
      | Some n \<Rightarrow>
          if trim (toLowerCase n) \<in> set ColumnType_values then trim (toLowerCase n)
          else ColumnType_Text)
   \<and> getColumnTypeFromQuiver getTypeName t \<in> set ColumnType_values
   \<and> getColumnTypeFromConfig c \<in> set ColumnType_values"
proof -
  have empty: "trim (toLowerCase []) = []"
    by (simp add: trim_def toLowerCase_def)
  have q: "getColumnTypeFromQuiver getTypeName t =
     (case getTypeName t of
        None \<Rightarrow> ColumnType_Text
      | Some n \<Rightarrow>
          if trim (toLowerCase n) = ''bool'' then ColumnType_Boolean
          else if trim (toLowerCase n) \<in> {''int64'', ''float64'', ''range''} then ColumnType_Number
          else if startsWith (trim (toLowerCase n)) ''list'' then ColumnType_List
          else ColumnType_Text)"
    by (auto simp add: getColumnTypeFromQuiver_def Let_def empty startsWith_def
        split: option.splits)
  have c: "getColumnTypeFromConfig c =
     (case c of
        None \<Rightarrow> ColumnType_Text
      | Some n \<Rightarrow>
          if trim (toLowerCase n) \<in> set ColumnType_values then trim (toLowerCase n)
          else ColumnType_Text)"
    by (auto simp add: getColumnTypeFromConfig_def Let_def empty list_ex_iff ColumnType_values_def
        ColumnType_defs split: option.splits)
  have "getColumnTypeFromQuiver getTypeName t \<in> set ColumnType_values"
    unfolding q by (simp add: ColumnType_values_def split: option.splits)
  moreover have "getColumnTypeFromConfig c \<in> set ColumnType_values"
    unfolding c by (simp add: ColumnType_values_def split: option.splits)
  ultimately show ?thesis
    using q c by blast
qed

theorem column_type_inference_witness:
  "getColumnTypeFromQuiver Some '' Float64 '' = ColumnType_Number
   \<and> getColumnTypeFromQuiver Some ''list[unicode]'' = ColumnType_List
   \<and> getColumnTypeFromQuiver Some ''datetimetz'' = ColumnType_Text
   \<and> getColumnTypeFromQuiver Some ''BOOL'' = ColumnType_Boolean
   \<and> getColumnTypeFromConfig (Some '' Bar-Chart'') = ColumnType_BarChart
   \<and> getColumnTypeFromConfig (Some ''chart'') = ColumnType_Text
   \<and> getColumnTypeFromConfig (Some []) = ColumnType_Text"
proof -
  have l: "trim (toLowerCase '' Float64 '') = ''float64''"
    "trim (toLowerCase ''list[unicode]'') = ''list[unicode]''"
    "trim (toLowerCase ''datetimetz'') = ''datetimetz''"
    "trim (toLowerCase ''BOOL'') = ''bool''"
    "trim (toLowerCase '' Bar-Chart'') = ''bar-chart''"
    "trim (toLowerCase ''chart'') = ''chart''"
    "trim (toLowerCase []) = []"
    by code_simp+
  show ?thesis
    using column_type_inference [of Some "'' Float64 ''" "Some '' Bar-Chart''"]
      column_type_inference [of Some "''list[unicode]''" "Some ''chart''"]
      column_type_inference [of Some "''datetimetz''" "Some []"]
      column_type_inference [of Some "''BOOL''" None]
    by (simp add: l startsWith_def ColumnType_values_def ColumnType_defs)
qed

section \<open>Cell templates\<close>

text \<open>
  Claim C6, as amended. \<^verbatim>\<open>getCellTemplate\<close> throws exactly on the unsupported types. For each
  of the nine values of \<^verbatim>\<open>ColumnType\<close> it returns a template whose kind is the kind of that
  type: text, boolean, number, bubble for a list, uri for a url, image, and a custom cell
  whose data has the kind \<^verbatim>\<open>sparkline-cell\<close> for the two sparkline charts and \<^verbatim>\<open>range-cell\<close>
  for the progress chart. The style of the first six is \<^verbatim>\<open>faded\<close> when \<open>isIndex\<close> is true and
  \<^verbatim>\<open>normal\<close> otherwise; the three chart templates have no style. For every other argument
  it throws the error \<^verbatim>\<open>Unsupported cell type\<close>.
\<close>

theorem getCellTemplate_kinds:
  "kind_and_style (getCellTemplate ColumnType_Text ro ix)
     = Some (JStr GridCellKind_Text, JStr GridCellKind_Text, JStr (if ix then ''faded'' else ''normal''))
   \<and> kind_and_style (getCellTemplate ColumnType_Boolean ro ix)
     = Some (JStr GridCellKind_Boolean, JStr GridCellKind_Boolean,
             JStr (if ix then ''faded'' else ''normal''))
   \<and> kind_and_style (getCellTemplate ColumnType_Number ro ix)
     = Some (JStr GridCellKind_Number, JStr GridCellKind_Number,
             JStr (if ix then ''faded'' else ''normal''))
   \<and> kind_and_style (getCellTemplate ColumnType_List ro ix)
     = Some (JStr GridCellKind_Bubble, JStr GridCellKind_Bubble,
             JStr (if ix then ''faded'' else ''normal''))
   \<and> kind_and_style (getCellTemplate ColumnType_Url ro ix)
     = Some (JStr GridCellKind_Uri, JStr GridCellKind_Uri, JStr (if ix then ''faded'' else ''normal''))
   \<and> kind_and_style (getCellTemplate ColumnType_Image ro ix)
     = Some (JStr GridCellKind_Image, JStr GridCellKind_Image,
             JStr (if ix then ''faded'' else ''normal''))
   \<and> kind_and_style (getCellTemplate ColumnType_LineChart ro ix)
     = Some (JStr GridCellKind_Custom, JStr ''sparkline-cell'', JUndefined)
   \<and> kind_and_style (getCellTemplate ColumnType_BarChart ro ix)
     = Some (JStr GridCellKind_Custom, JStr ''sparkline-cell'', JUndefined)
   \<and> kind_and_style (getCellTemplate ColumnType_ProgressChart ro ix)
     = Some (JStr GridCellKind_Custom, JStr ''range-cell'', JUndefined)
   \<and> (type \<notin> set ColumnType_values \<longrightarrow>
        getCellTemplate type ro ix = Inl (Error (''Unsupported cell type: '' @ type)))"
  by (simp add: getCellTemplate_def kind_and_style_def cellKind_of_def get_prop_def
      ColumnType_values_def ColumnType_defs GridCellKind_defs)

theorem getCellTemplate_kinds_witness:
  "''markdown'' \<notin> set ColumnType_values
   \<and> getCellTemplate ''markdown'' False True = Inl (Error ''Unsupported cell type: markdown'')
   \<and> kind_and_style (getCellTemplate ColumnType_Text False True)
       = Some (JStr ''text'', JStr ''text'', JStr ''faded'')"
  using getCellTemplate_kinds [of False True "''markdown''"]
  by (simp add: ColumnType_values_def ColumnType_defs GridCellKind_defs)

text \<open>
  Claim C6 as stated fails at the line chart type with \<open>isIndex\<close> true: the style of the
  template is not \<^verbatim>\<open>faded\<close>, the template has no style.
\<close>

theorem getCellTemplate_chart_style_counterexample:
  "\<not> (style_is_faded (getCellTemplate ColumnType_LineChart False True) \<longleftrightarrow> True)
   \<and> kind_and_style (getCellTemplate ColumnType_LineChart False True)
       = Some (JStr ''custom'', JStr ''sparkline-cell'', JUndefined)"
  by (simp add: getCellTemplate_def kind_and_style_def cellKind_of_def get_prop_def
      style_is_faded_def ColumnType_defs GridCellKind_defs)

section \<open>When filling a template returns a cell\<close>















section \<open>The editing cache as an overlay\<close>

lemma sameValueZero_refl: "sameValueZero a a"
  by (simp add: sameValueZero_def)

lemma sameValueZero_sym: "sameValueZero a b \<Longrightarrow> sameValueZero b a"
  by (auto simp add: sameValueZero_def)

lemma sameValueZero_trans: "sameValueZero a b \<Longrightarrow> sameValueZero b c \<Longrightarrow> sameValueZero a c"
  by (auto simp add: sameValueZero_def isNaN_def isZero_def)

lemma sameValueZero_left: "sameValueZero a b \<Longrightarrow> sameValueZero a c = sameValueZero b c"
  using sameValueZero_sym sameValueZero_trans by blast

lemma Map_get_cong:
  "sameValueZero k k' \<Longrightarrow> Map_get sameValueZero m k = Map_get sameValueZero m k'"
proof (induction m)
  case Nil
  then show ?case by simp
next
  case (Cons e m)
  obtain a b where e: "e = (a, b)" by (cases e)
  from Cons.prems have "sameValueZero a k = sameValueZero a k'"
    using sameValueZero_sym sameValueZero_trans by blast
  with Cons show ?case by (simp add: e)
qed

lemma Map_get_set:
  "Map_get sameValueZero (Map_set sameValueZero m k v) k' =
     (if sameValueZero k k' then Some v else Map_get sameValueZero m k')"
proof (induction m)
  case Nil
  show ?case by simp
next
  case (Cons e m)
  obtain a b where e: "e = (a, b)" by (cases e)
  show ?case
  proof (cases "sameValueZero a k")
    case True
    then have "sameValueZero a k' = sameValueZero k k'"
      by (rule sameValueZero_left)
    with True show ?thesis by (simp add: e)
  next
    case False
    have "\<not> (sameValueZero a k' \<and> sameValueZero k k')"
      using False sameValueZero_sym sameValueZero_trans by blast
    with False Cons.IH show ?thesis by (auto simp add: e)
  qed
qed

lemma EditingCache_get_set:
  "EditingCache_get (EditingCache_set cache col row cell) col' row' =
     (if sameValueZero col col' \<and> sameValueZero row row' then Some cell
      else EditingCache_get cache col' row')"
proof (cases "sameValueZero col col'")
  case True
  then have same: "Map_get sameValueZero cache col' = Map_get sameValueZero cache col"
    using Map_get_cong sameValueZero_sym by blast
  show ?thesis
    using True
    by (cases "Map_get sameValueZero cache col")
      (simp_all add: EditingCache_get_def EditingCache_set_def Map_get_set same
        sameValueZero_refl Let_def)
next
  case False
  then show ?thesis
    by (cases "Map_get sameValueZero cache col")
      (simp_all add: EditingCache_get_def EditingCache_set_def Map_get_set
        sameValueZero_refl Let_def)
qed

text \<open>
  Claim C4, as amended. The editing cache behaves as a sparse map from the column and the
  row to a cell: after \<^verbatim>\<open>set(col, row, cell)\<close>, \<^verbatim>\<open>get(col, row)\<close> returns that cell, and \<^verbatim>\<open>get\<close> at
  every other coordinate returns what it returned before. The cache is consulted before
  the source table: for a table that is not empty and a column that is not beyond the last
  column, \<^verbatim>\<open>getCellContent\<close> at a coordinate with a cached entry returns the cached cell.
\<close>

theorem editing_cache_overlay:
  "EditingCache_get (EditingCache_set cache col row cell) col row = Some cell
   \<and> (\<not> (sameValueZero col col' \<and> sameValueZero row row') \<longrightarrow>
        EditingCache_get (EditingCache_set cache col row cell) col' row'
          = EditingCache_get cache col' row')
   \<and> (\<not> isEmpty (table_data h)
        \<and> \<not> fgt c (fsub (array_length (columns h)) num_1)
        \<and> EditingCache_get (editingCache h) c r = Some cached \<longrightarrow>
        getCellContent rx fmt h (c, r) = Inr cached)"
  by (simp add: EditingCache_get_set sameValueZero_refl getCellContent_def)

lemma array_length_one: "array_length [x] = num_1"
  unfolding array_length_def by simp code_simp

lemma fsub_one_one: "fsub num_1 num_1 = num_0"
proof -
  have "\<not> isInf num_1"
    by (simp add: isInf_def num_1_def)
  then show ?thesis
    using fsub_self [of num_1] by (simp add: notNaN_consts num_0_def zero_def)
qed

theorem editing_cache_overlay_witness:
  "\<not> (sameValueZero num_0 num_0 \<and> sameValueZero num_0 num_1)
   \<and> EditingCache_get (EditingCache_set EditingCache_new num_0 num_0 example_edited_cell)
         num_0 num_1 = None
   \<and> \<not> isEmpty (table_data example_loader_edited)
   \<and> \<not> fgt num_0 (fsub (array_length (columns example_loader_edited)) num_1)
   \<and> EditingCache_get (editingCache example_loader_edited) num_0 num_0 = Some example_edited_cell
   \<and> getCellContent example_regex example_format example_loader_edited (num_0, num_0)
       = Inr example_edited_cell"
proof -
  have h1: "\<not> (sameValueZero num_0 num_0 \<and> sameValueZero num_0 num_1)"
    by (simp add: sameValueZero_def num_0_def num_1_def isNaN_def isZero_def)
  have h2: "\<not> isEmpty (table_data example_loader_edited)"
    by (simp add: example_loader_edited_def example_table_def)
  have h3: "\<not> fgt num_0 (fsub (array_length (columns example_loader_edited)) num_1)"
    by (simp add: example_loader_edited_def array_length_one fsub_one_one fgt_def flt_def)
  note t = editing_cache_overlay [of EditingCache_new num_0 num_0 example_edited_cell num_0 num_1
      example_loader_edited num_0 num_0 example_edited_cell example_regex example_format]
  have h4: "EditingCache_get (editingCache example_loader_edited) num_0 num_0
              = Some example_edited_cell"
    using t by (simp add: example_loader_edited_def)
  have 1: "EditingCache_get (EditingCache_set EditingCache_new num_0 num_0 example_edited_cell)
         num_0 num_1 = None"
    using t h1 by (simp add: EditingCache_new_def EditingCache_get_def)
  have 2: "getCellContent example_regex example_format example_loader_edited (num_0, num_0)
       = Inr example_edited_cell"
    using t h2 h3 h4 by blast
  show ?thesis
    using h1 h2 h3 h4 1 2 by blast
qed

lemma fgt_five: "fgt num_5 num_0"
  by (simp add: fgt_def flt_def notNaN_consts valof_consts)

text \<open>
  Claim C4 as stated fails for a column beyond the last one: with one column and an entry
  cached at column 5, \<^verbatim>\<open>getCellContent\<close> at that coordinate returns the read-only text
  template, not the cached cell.
\<close>

theorem getCellContent_cached_out_of_range_counterexample:
  "\<not> isEmpty (table_data example_loader)
   \<and> EditingCache_get (editingCache example_loader) num_5 num_0 = Some example_edited_cell
   \<and> getCellContent example_regex example_format example_loader (num_5, num_0)
       = getCellTemplate ColumnType_Text True False
   \<and> getCellContent example_regex example_format example_loader (num_5, num_0)
       \<noteq> Inr example_edited_cell"
proof -
  have 1: "\<not> isEmpty (table_data example_loader)"
    by (simp add: example_loader_def example_table_def)
  have 2: "EditingCache_get (editingCache example_loader) num_5 num_0 = Some example_edited_cell"
    by (simp add: example_loader_def EditingCache_get_set sameValueZero_refl)
  have 3: "getCellContent example_regex example_format example_loader (num_5, num_0)
       = getCellTemplate ColumnType_Text True False"
    using 1 by (simp add: getCellContent_def example_loader_def array_length_one fsub_one_one
        fgt_five)
  have 4: "getCellTemplate ColumnType_Text True False \<noteq> Inr example_edited_cell"
    by (simp add: getCellTemplate_Text example_edited_cell_def)
  show ?thesis
    using 1 2 3 4 by simp
qed

section \<open>The source table is never changed\<close>

lemma length_push: "length (push a v s) = length s"
  by (simp add: push_def split: object.splits)

lemma take_push: "n \<le> a \<Longrightarrow> take n (push a v s) = take n s"
  by (simp add: push_def split: object.splits)

lemma length_set_property: "length (set_property a k v s) = length s"
  by (simp add: set_property_def split: object.splits)

lemma take_set_property: "n \<le> a \<Longrightarrow> take n (set_property a k v s) = take n s"
  by (simp add: set_property_def split: object.splits)

lemma extends_store_new_cell: "extends_store s (new_cell r s)"
  by (cases r) (simp_all add: extends_store_def new_cell_def alloc_def)

lemma extends_store_trans:
  assumes "length s \<le> length s1" and "take (length s) s1 = s" and "extends_store s1 out"
  shows "extends_store s out"
proof -
  obtain r s' where out: "out = (r, s')" by (cases out)
  from assms(3) have l: "length s1 \<le> length s'" and t: "take (length s1) s' = s1"
    and a: "case r of Inl e \<Rightarrow> True | Inr a \<Rightarrow> length s1 \<le> a \<and> a < length s'"
    by (simp_all add: extends_store_def out)
  have "take (length s) s' = take (length s) (take (length s1) s')"
    using assms(1) by (simp add: min_def)
  then have "take (length s) s' = s"
    using t assms(2) by simp
  moreover have "case r of Inl e \<Rightarrow> True | Inr a \<Rightarrow> length s \<le> a \<and> a < length s'"
    using a assms(1) by (cases r) simp_all
  ultimately show ?thesis
    using l assms(1) by (simp add: extends_store_def out)
qed

lemma chart_fold_keeps:
  "fold (chart_step_st c) xs (mx, mn, s) = (mx', mn', s') \<Longrightarrow>
     length s' = length s \<and> (\<forall>n \<le> c. take n s' = take n s)"
proof (induction xs arbitrary: mx mn s)
  case Nil
  then show ?case by simp
next
  case (Cons x xs)
  obtain mx1 mn1 s1 where step: "chart_step_st c x (mx, mn, s) = (mx1, mn1, s1)"
    by (cases "chart_step_st c x (mx, mn, s)")
  then have s1: "s1 = s \<or> s1 = push c (Number_js x) s"
    by (auto simp add: chart_step_st_def Let_def split: if_splits)
  then have k: "length s1 = length s \<and> (\<forall>n \<le> c. take n s1 = take n s)"
    by (auto simp add: length_push take_push)
  from Cons.prems step have "fold (chart_step_st c) xs (mx1, mn1, s1) = (mx', mn', s')"
    by simp
  from Cons.IH [OF this] k show ?case by simp
qed

lemma extends_store_fillChartCell_st: "extends_store s (fillChartCell_st s cell data)"
proof -
  let ?c = "length s"
  let ?s2 = "s @ [NumberArray [], NumberArray []]"
  have keep: "extends_store s (new_cell r s')"
    if "length s \<le> length s'" and "take (length s) s' = s" for r s'
    using extends_store_trans [OF that(1) that(2) extends_store_new_cell [of s' r]] .
  show ?thesis
  proof (cases "notNullOrUndefined (deref s data)")
    case False
    then show ?thesis
      by (simp add: fillChartCell_st_def extends_store_new_cell)
  next
    case True
    show ?thesis
    proof (cases "case deref s data of JArray xs \<Rightarrow> Some xs
                   | JHost (Some xs) p st n j \<Rightarrow> Some xs | _ \<Rightarrow> None")
      case None
      with True show ?thesis
        by (simp add: fillChartCell_st_def extends_store_new_cell)
    next
      case (Some chartData)
      obtain mx mn s3 where f:
        "fold (chart_step_st ?c) chartData
           (Number_js (hd chartData), Number_js (hd chartData), ?s2) = (mx, mn, s3)"
        by (cases "fold (chart_step_st ?c) chartData
           (Number_js (hd chartData), Number_js (hd chartData), ?s2)")
      from chart_fold_keeps [OF f] have l3: "length s3 = length s + 2"
        and t3: "take (length s) s3 = s"
        by simp_all
      show ?thesis
      proof (cases "1 \<le> length chartData")
        case False
        with True Some show ?thesis
          by (simp add: fillChartCell_st_def alloc_def Let_def keep)
      next
        case nonempty: True
        show ?thesis
        proof (cases "fgt mx num_1 \<or> flt mn num_0")
          case True
          with \<open>notNullOrUndefined (deref s data)\<close> Some nonempty f l3 t3 show ?thesis
            by (simp add: fillChartCell_st_def alloc_def Let_def keep)
        next
          case False
          with \<open>notNullOrUndefined (deref s data)\<close> Some nonempty f l3 t3 show ?thesis
            by (simp add: fillChartCell_st_def alloc_def Let_def keep)
        qed
      qed
    qed
  qed
qed


lemma extends_store_fill:
  "extends_store s (fillListCell_st s cell data)"
  "extends_store s (fillUrlCell_st s cell data)"
  "extends_store s (fillTextCell_st s cell data d)"
  "extends_store s (fillBooleanCell_st s cell data)"
  "extends_store s (fillNumberCell_st s cell data d)"
  "extends_store s (fillImageCell_st s cell data)"
  "extends_store s (fillProgressCell_st s cell data)"
  by (simp_all add: fillListCell_st_def fillUrlCell_st_def fillTextCell_st_def
      fillBooleanCell_st_def fillNumberCell_st_def fillImageCell_st_def fillProgressCell_st_def
      extends_store_new_cell)

lemma applyPandasStylerCss_st_keeps:
  "applyPandasStylerCss_st rx s cell i css = (r, s') \<Longrightarrow>
     length s \<le> length s' \<and> take (length s) s' = s
     \<and> (case r of Inl e \<Rightarrow> True | Inr a \<Rightarrow> length s \<le> a \<and> a < length s')"
  by (auto simp add: applyPandasStylerCss_st_def extractCssProperty_st_def alloc_def new_cell_def
      Let_def length_set_property take_set_property
      split: sum.splits option.splits if_splits prod.splits)

lemma extends_store_fillCellTemplate_st:
  "extends_store s (fillCellTemplate_st rx fmt s cellTemplate quiverCell css)"
proof -
  obtain r1 s1 where styled:
    "(case (css, cssId (quiverCell_at s quiverCell)) of
        (Some css', Some cid) \<Rightarrow>
          if css' \<noteq> [] \<and> cid \<noteq> []
          then applyPandasStylerCss_st rx s cellTemplate cid css'
          else (Inr cellTemplate, s)
      | _ \<Rightarrow> (Inr cellTemplate, s)) = (r1, s1)"
    by (cases "(case (css, cssId (quiverCell_at s quiverCell)) of
        (Some css', Some cid) \<Rightarrow>
          if css' \<noteq> [] \<and> cid \<noteq> []
          then applyPandasStylerCss_st rx s cellTemplate cid css'
          else (Inr cellTemplate, s)
      | _ \<Rightarrow> (Inr cellTemplate, s))")
  then have k: "length s \<le> length s1 \<and> take (length s) s1 = s"
    using applyPandasStylerCss_st_keeps [of rx s cellTemplate _ _ r1 s1]
    by (auto split: option.splits if_splits)
  have step: "extends_store s out" if "extends_store s1 out" for out
    using extends_store_trans [of s s1 out] k that by blast
  have err: "extends_store s (Inl e, s1)" for e
    using k by (simp add: extends_store_def)
  show ?thesis
    unfolding fillCellTemplate_st_def Let_def styled
    by (cases r1)
      (simp_all add: extends_store_new_cell extends_store_fill extends_store_fillChartCell_st
        step err)
qed

lemma onCellEdited_frame:
  assumes "onCellEdited rx fmt isEditableGridCell getOriginalIndex now h (col, row) newVal = Inr h'"
  shows "table_data h' = table_data h \<and> columns h' = columns h
         \<and> (\<forall>c r. \<not> (sameValueZero col c \<and> sameValueZero (getOriginalIndex row) r) \<longrightarrow>
               EditingCache_get (editingCache h') c r = EditingCache_get (editingCache h) c r)"
  using assms
  by (auto simp add: onCellEdited_def EditingCache_get_set split: sum.splits if_splits)

lemma nth_kept:
  "length s \<le> length s1 \<Longrightarrow> take (length s) s1 = s \<Longrightarrow> a < length s \<Longrightarrow> s1 ! a = s ! a"
  by (metis nth_take)

lemma cell_at_kept:
  "length s \<le> length s1 \<Longrightarrow> take (length s) s1 = s \<Longrightarrow> a < length s \<Longrightarrow>
     cell_at s1 a = cell_at s a"
  by (simp add: cell_at_def nth_kept)

lemma returned_new_cell: "returned_cell (new_cell r s) = r"
  by (cases r) (simp_all add: returned_cell_def new_cell_def alloc_def cell_at_def)

lemma chart_fold_refines:
  "c < length s \<Longrightarrow> s ! c = NumberArray acc \<Longrightarrow>
     fold (chart_step_st c) xs (mx, mn, s) =
       (case fold chart_step xs (mx, mn, acc) of
          (mx', mn', acc') \<Rightarrow> (mx', mn', s[c := NumberArray acc']))"
proof (induction xs arbitrary: mx mn s acc)
  case Nil
  then have "s[c := NumberArray acc] = s"
    by (metis list_update_id)
  then show ?case by simp
next
  case (Cons x xs)
  let ?v = "Number_js x"
  let ?mx = "if fgt ?v mx then ?v else mx"
  let ?mn = "if flt ?v mn then ?v else mn"
  show ?case
  proof (cases "isNaN ?v")
    case True
    then have "chart_step_st c x (mx, mn, s) = (?mx, ?mn, s)"
      and "chart_step x (mx, mn, acc) = (?mx, ?mn, acc)"
      by (simp_all add: chart_step_st_def chart_step_def Let_def)
    then show ?thesis
      using Cons.IH [OF Cons.prems, of ?mx ?mn] by simp
  next
    case False
    let ?s = "s[c := NumberArray (acc @ [?v])]"
    from False Cons.prems have 1: "chart_step_st c x (mx, mn, s) = (?mx, ?mn, ?s)"
      by (simp add: chart_step_st_def Let_def push_def)
    from False have 2: "chart_step x (mx, mn, acc) = (?mx, ?mn, acc @ [?v])"
      by (simp add: chart_step_def Let_def)
    have 3: "c < length ?s" "?s ! c = NumberArray (acc @ [?v])"
      using Cons.prems by simp_all
    show ?thesis
      using Cons.IH [OF 3, of ?mx ?mn] 1 2
      by (simp split: prod.splits)
  qed
qed

lemma fillChartCell_st_refines:
  assumes "cell < length s"
  shows "returned_cell (fillChartCell_st s cell data) = fillChartCell (cell_at s cell) (deref s data)"
proof (cases "notNullOrUndefined (deref s data)")
  case False
  then show ?thesis
    by (simp add: fillChartCell_st_def fillChartCell_def returned_new_cell)
next
  case True
  show ?thesis
  proof (cases "case deref s data of JArray xs \<Rightarrow> Some xs
                 | JHost (Some xs) p st n j \<Rightarrow> Some xs | _ \<Rightarrow> None")
    case None
    with True show ?thesis
      by (simp add: fillChartCell_st_def fillChartCell_def returned_new_cell)
  next
    case (Some chartData)
    let ?c = "length s"
    let ?s2 = "s @ [NumberArray [], NumberArray []]"
    obtain mx mn conv where p:
      "fold chart_step chartData (Number_js (hd chartData), Number_js (hd chartData), [])
         = (mx, mn, conv)"
      by (cases "fold chart_step chartData
                   (Number_js (hd chartData), Number_js (hd chartData), [])")
    have "?c < length ?s2" and "?s2 ! ?c = NumberArray []"
      by (simp_all add: nth_append)
    from chart_fold_refines [OF this, of chartData] p
    have f: "fold (chart_step_st ?c) chartData
           (Number_js (hd chartData), Number_js (hd chartData), ?s2)
           = (mx, mn, s @ [NumberArray conv, NumberArray []])"
      by (simp add: list_update_append)
    have cell: "cell_at (s @ xs) cell = cell_at s cell" for xs
      using assms by (simp add: cell_at_def nth_append)
    have n0: "numbers_at (s @ NumberArray a # xs) (length s) = a" for a xs
      by (simp add: numbers_at_def nth_append)
    have n1: "numbers_at (s @ NumberArray a # NumberArray b # xs) (Suc (length s)) = b" for a b xs
      by (simp add: numbers_at_def nth_append)
    have n2: "numbers_at (s @ [NumberArray a, NumberArray b, NumberArray d]) (Suc (Suc (length s))) = d"
      for a b d
      by (simp add: numbers_at_def nth_append)
    show ?thesis
      using True Some
      by (simp add: fillChartCell_st_def fillChartCell_def alloc_def Let_def f p returned_new_cell
          cell n0 n1 n2 del: fold_simps)
  qed
qed


lemma set_property_last:
  "set_property (length s) k v (s @ [CellObject c]) = s @ [CellObject (AList.update k v c)]"
  by (simp add: set_property_def nth_append)

lemma cell_at_append: "a < length s \<Longrightarrow> cell_at (s @ xs) a = cell_at s a"
  by (simp add: cell_at_def nth_append)

lemma cell_at_last: "cell_at (s @ [CellObject c]) (length s) = c"
  by (simp add: cell_at_def nth_append)

lemma applyPandasStylerCss_st_refines:
  assumes "cell < length s"
  shows "returned_cell (applyPandasStylerCss_st rx s cell i css)
           = applyPandasStylerCss rx (cell_at s cell) i css"
proof (cases "extractCssProperty rx i ''color'' css")
  case (Inl e)
  then show ?thesis
    by (simp add: applyPandasStylerCss_st_def applyPandasStylerCss_def extractCssProperty_st_def
        alloc_def returned_cell_def)
next
  case fc: (Inr fontColor)
  show ?thesis
  proof (cases "extractCssProperty rx i ''background-color'' css")
    case (Inl e)
    with fc show ?thesis
      by (simp add: applyPandasStylerCss_st_def applyPandasStylerCss_def
          extractCssProperty_st_def alloc_def returned_cell_def Let_def)
  next
    case bc: (Inr backgroundColor)
    show ?thesis
      using fc bc assms
      by (cases fontColor; cases backgroundColor)
        (simp_all add: applyPandasStylerCss_st_def applyPandasStylerCss_def
          extractCssProperty_st_def alloc_def Let_def set_property_last returned_new_cell
          cell_at_append cell_at_last spread_Cons spread_Nil)
  qed
qed

lemma deref_kept:
  assumes "length s \<le> length s1" and "take (length s) s1 = s"
    and "case r of Val v \<Rightarrow> True | Ref a \<Rightarrow> a < length s"
  shows "deref s1 r = deref s r"
proof (cases r)
  case (Val v)
  then show ?thesis by (simp add: deref_def)
next
  case (Ref a)
  with assms(3) have a: "a < length s" by simp
  then have "s1 ! a = s ! a"
    using nth_kept [OF assms(1) assms(2)] by simp
  with a assms(1) Ref show ?thesis
    by (simp add: deref_def)
qed

lemma content_ref_at_kept:
  "length s \<le> length s1 \<Longrightarrow> take (length s) s1 = s \<Longrightarrow> q < length s \<Longrightarrow>
     content_ref_at s1 q = content_ref_at s q"
  by (simp add: content_ref_at_def nth_kept)

lemma quiverCell_at_kept:
  assumes "length s \<le> length s1" and "take (length s) s1 = s" and "q < length s"
    and "case content_ref_at s q of Val v \<Rightarrow> True | Ref a \<Rightarrow> a < length s"
  shows "quiverCell_at s1 q = quiverCell_at s q"
proof -
  have n: "s1 ! q = s ! q"
    using nth_kept [OF assms(1) assms(2) assms(3)] .
  show ?thesis
  proof (cases "s ! q")
    case (QuiverCellObject c t d i)
    then have "content_ref_at s q = c"
      using assms(3) by (simp add: content_ref_at_def)
    with assms(4) have "deref s1 c = deref s c"
      using deref_kept [OF assms(1) assms(2)] by simp
    with QuiverCellObject n assms(1) assms(3) show ?thesis
      by (simp add: quiverCell_at_def)
  qed (use n assms(1) assms(3) in \<open>simp_all add: quiverCell_at_def\<close>)
qed

lemma content_quiverCell_at:
  "content (quiverCell_at s q) = deref s (content_ref_at s q)"
  by (simp add: quiverCell_at_def content_ref_at_def deref_def split: object.splits)

lemma fill_st_refines:
  "returned_cell (fillListCell_st s cell data) = fillListCell (cell_at s cell) (deref s data)"
  "returned_cell (fillUrlCell_st s cell data) = Inr (fillUrlCell (cell_at s cell) (deref s data))"
  "returned_cell (fillTextCell_st s cell data d) = Inr (fillTextCell (cell_at s cell) (deref s data) d)"
  "returned_cell (fillBooleanCell_st s cell data) = fillBooleanCell (cell_at s cell) (deref s data)"
  "returned_cell (fillNumberCell_st s cell data d) = fillNumberCell (cell_at s cell) (deref s data) d"
  "returned_cell (fillImageCell_st s cell data) = Inr (fillImageCell (cell_at s cell) (deref s data))"
  "returned_cell (fillProgressCell_st s cell data) = fillProgressCell (cell_at s cell) (deref s data)"
  by (simp_all add: fillListCell_st_def fillUrlCell_st_def fillTextCell_st_def
      fillBooleanCell_st_def fillNumberCell_st_def fillImageCell_st_def fillProgressCell_st_def
      returned_new_cell)


lemma fillCellTemplate_st_refines:
  assumes t: "cellTemplate < length s" and q: "quiverCell < length s"
    and c: "case content_ref_at s quiverCell of Val v \<Rightarrow> True | Ref a \<Rightarrow> a < length s"
  shows "returned_cell (fillCellTemplate_st rx fmt s cellTemplate quiverCell css)
           = fillCellTemplate rx fmt (cell_at s cellTemplate) (quiverCell_at s quiverCell) css"
proof -
  let ?styled_st = "case (css, cssId (quiverCell_at s quiverCell)) of
        (Some css', Some cid) \<Rightarrow>
          if css' \<noteq> [] \<and> cid \<noteq> []
          then applyPandasStylerCss_st rx s cellTemplate cid css'
          else (Inr cellTemplate, s)
      | _ \<Rightarrow> (Inr cellTemplate, s)"
  let ?styled = "case (css, cssId (quiverCell_at s quiverCell)) of
        (Some css', Some cid) \<Rightarrow>
          if css' \<noteq> [] \<and> cid \<noteq> []
          then applyPandasStylerCss rx (cell_at s cellTemplate) cid css'
          else Inr (cell_at s cellTemplate)
      | _ \<Rightarrow> Inr (cell_at s cellTemplate)"
  obtain r1 s1 where st: "?styled_st = (r1, s1)"
    by (cases ?styled_st)
  have both: "length s \<le> length s1 \<and> take (length s) s1 = s
           \<and> (case r1 of Inl e \<Rightarrow> True | Inr a \<Rightarrow> a < length s1)
           \<and> returned_cell (r1, s1) = ?styled"
  proof (cases "\<exists>css' cid. css = Some css' \<and> cssId (quiverCell_at s quiverCell) = Some cid
                  \<and> css' \<noteq> [] \<and> cid \<noteq> []")
    case True
    then obtain css' cid where a: "css = Some css'" "cssId (quiverCell_at s quiverCell) = Some cid"
      "css' \<noteq> []" "cid \<noteq> []"
      by blast
    then have 1: "applyPandasStylerCss_st rx s cellTemplate cid css' = (r1, s1)"
      using st by simp
    have 2: "?styled = applyPandasStylerCss rx (cell_at s cellTemplate) cid css'"
      using a by simp
    from applyPandasStylerCss_st_keeps [OF 1]
    have "length s \<le> length s1 \<and> take (length s) s1 = s
           \<and> (case r1 of Inl e \<Rightarrow> True | Inr a \<Rightarrow> a < length s1)"
      by (cases r1) simp_all
    moreover have "returned_cell (r1, s1) = ?styled"
      unfolding 2 using applyPandasStylerCss_st_refines [OF t, of rx cid css'] 1 by simp
    ultimately show ?thesis by blast
  next
    case False
    then have 1: "?styled_st = (Inr cellTemplate, s)"
      by (cases css; cases "cssId (quiverCell_at s quiverCell)") auto
    from False have 2: "?styled = Inr (cell_at s cellTemplate)"
      by (cases css; cases "cssId (quiverCell_at s quiverCell)") auto
    from 1 st have "r1 = Inr cellTemplate" "s1 = s"
      by simp_all
    then show ?thesis
      unfolding 2 using t by (simp add: returned_cell_def)
  qed
  then have k: "length s \<le> length s1" "take (length s) s1 = s"
    and r: "returned_cell (r1, s1) = ?styled"
    and v: "case r1 of Inl e \<Rightarrow> True | Inr a \<Rightarrow> a < length s1"
    by blast+
  have qc: "quiverCell_at s1 quiverCell = quiverCell_at s quiverCell"
    using quiverCell_at_kept [OF k q c] .
  have cr: "content_ref_at s1 quiverCell = content_ref_at s quiverCell"
    using content_ref_at_kept [OF k q] .
  have dr: "deref s1 (content_ref_at s quiverCell) = content (quiverCell_at s quiverCell)"
    using deref_kept [OF k c] by (simp add: content_quiverCell_at)
  show ?thesis
  proof (cases "truthy (cellKind_of (cell_at s cellTemplate))")
    case False
    then show ?thesis
      by (simp add: fillCellTemplate_st_def fillCellTemplate_def returned_new_cell)
  next
    case True
    show ?thesis
    proof (cases r1)
      case (Inl e)
      with r have "?styled = Inl e"
        by (simp add: returned_cell_def)
      with True Inl show ?thesis
        unfolding fillCellTemplate_st_def fillCellTemplate_def Let_def st
        by (simp add: returned_cell_def)
    next
      case (Inr t')
      with v have t': "t' < length s1" by simp
      from r Inr have styled: "?styled = Inr (cell_at s1 t')"
        by (simp add: returned_cell_def)
      show ?thesis
        unfolding fillCellTemplate_st_def fillCellTemplate_def Let_def st styled Inr
        using True
        by (simp add: returned_new_cell fill_st_refines fillChartCell_st_refines [OF t'] qc cr dr)
    qed
  qed
qed

text \<open>
  Claim C8. Display formatting never changes the source table. Over the store,
  \<^verbatim>\<open>fillCellTemplate\<close> and each of the functions that fill one kind of cell leave every object
  that was in the store as it was, the quiver cell and the objects of the table among
  them, and return a new object; for addresses that are in the store, the cell returned
  is the cell that the function of the same name gives on the values. A user edit,
  \<^verbatim>\<open>onCellEdited\<close>, leaves the source table and the columns as they were and changes the
  editing cache at the edited coordinate only.
\<close>

theorem formatting_and_edits_leave_table_unchanged:
  "extends_store s (fillCellTemplate_st rx fmt s cellTemplate quiverCell css)
   \<and> extends_store s (fillTextCell_st s cell data d)
   \<and> extends_store s (fillNumberCell_st s cell data d)
   \<and> extends_store s (fillBooleanCell_st s cell data)
   \<and> extends_store s (fillListCell_st s cell data)
   \<and> extends_store s (fillUrlCell_st s cell data)
   \<and> extends_store s (fillImageCell_st s cell data)
   \<and> extends_store s (fillChartCell_st s cell data)
   \<and> extends_store s (fillProgressCell_st s cell data)
   \<and> (cellTemplate < length s \<and> quiverCell < length s
        \<and> (case content_ref_at s quiverCell of Val v \<Rightarrow> True | Ref a \<Rightarrow> a < length s) \<longrightarrow>
        returned_cell (fillCellTemplate_st rx fmt s cellTemplate quiverCell css)
          = fillCellTemplate rx fmt (cell_at s cellTemplate) (quiverCell_at s quiverCell) css)
   \<and> (onCellEdited rx fmt isEditableGridCell getOriginalIndex now h (col, row) newVal = Inr h' \<longrightarrow>
        table_data h' = table_data h \<and> columns h' = columns h
        \<and> (\<forall>c r. \<not> (sameValueZero col c \<and> sameValueZero (getOriginalIndex row) r) \<longrightarrow>
              EditingCache_get (editingCache h') c r = EditingCache_get (editingCache h) c r))"
  using onCellEdited_frame [of rx fmt isEditableGridCell getOriginalIndex now h col row newVal h']
    fillCellTemplate_st_refines [of cellTemplate s quiverCell rx fmt css]
  by (simp add: extends_store_fillCellTemplate_st extends_store_fill
      extends_store_fillChartCell_st)

lemma Number_toString_5: "Number_toString num_5 = ''5''"
  by code_simp

lemma updateCell_example:
  "updateCell num_100 example_edited_cell (JNum num_5) None = Inr example_updated_cell"
  by (simp add: updateCell_def cellKind_of_def example_edited_cell_def get_prop_def
      GridCellKind_defs fillNumberCell_def notNullOrUndefined_def notNaN_consts
      Number_toString_5 spread_def example_updated_cell_def)

lemma onCellEdited_example:
  "onCellEdited example_regex example_format example_isEditableGridCell example_getOriginalIndex
       num_100 example_loader_edited (num_0, num_0) example_new_value
     = Inr (example_loader_edited
              \<lparr>editingCache :=
                 EditingCache_set (editingCache example_loader_edited) num_0 num_0
                   example_updated_cell\<rparr>)"
proof -
  have current: "getCellContentSorted example_regex example_format example_getOriginalIndex
                   example_loader_edited (num_0, num_0) = Inr example_edited_cell"
    by (simp add: getCellContentSorted_def example_getOriginalIndex_def getCellContent_def
        example_loader_edited_def example_table_def array_length_one fsub_one_one fgt_def flt_def
        EditingCache_get_set sameValueZero_refl)
  have editable: "example_isEditableGridCell example_new_value"
    "example_isEditableGridCell example_edited_cell"
    by (simp_all add: example_isEditableGridCell_def example_new_value_def
        example_edited_cell_def get_prop_def GridCellKind_defs)
  have data: "get_prop example_new_value ''data'' = JNum num_5"
    by (simp add: example_new_value_def get_prop_def)
  show ?thesis
    by (simp add: onCellEdited_def current editable data updateCell_example
        example_getOriginalIndex_def)
qed

theorem formatting_and_edits_leave_table_unchanged_witness:
  "onCellEdited example_regex example_format example_isEditableGridCell example_getOriginalIndex
       num_100 example_loader_edited (num_0, num_0) example_new_value
     = Inr (example_loader_edited
              \<lparr>editingCache :=
                 EditingCache_set (editingCache example_loader_edited) num_0 num_0
                   example_updated_cell\<rparr>)
   \<and> table_data (example_loader_edited
              \<lparr>editingCache :=
                 EditingCache_set (editingCache example_loader_edited) num_0 num_0
                   example_updated_cell\<rparr>) = table_data example_loader_edited
   \<and> (2::nat) < length example_store \<and> (1::nat) < length example_store
   \<and> content_ref_at example_store 1 = Ref 0
   \<and> extends_store example_store
        (fillCellTemplate_st example_regex example_format example_store 2 1 None)
   \<and> returned_cell (fillCellTemplate_st example_regex example_format example_store 2 1 None)
       = fillCellTemplate example_regex example_format (cell_at example_store 2)
           (quiverCell_at example_store 1) None"
proof -
  have h: "(2::nat) < length example_store" "(1::nat) < length example_store"
    "content_ref_at example_store 1 = Ref 0"
    by (simp_all add: example_store_def content_ref_at_def)
  have v: "case content_ref_at example_store 1 of Val v \<Rightarrow> True
                | Ref a \<Rightarrow> a < length example_store"
    by (simp add: example_store_def content_ref_at_def)
  note t = formatting_and_edits_leave_table_unchanged
    [of example_store example_regex example_format 2 1 None 2 "Ref 0" "[]"
      example_isEditableGridCell example_getOriginalIndex num_100 example_loader_edited
      num_0 num_0 example_new_value
      "example_loader_edited
              \<lparr>editingCache :=
                 EditingCache_set (editingCache example_loader_edited) num_0 num_0
                   example_updated_cell\<rparr>"]
  show ?thesis
    using t onCellEdited_example h v by blast
qed

end
